theory Spec2Isabelle
  imports Main "HOL-Library.Word"
begin

section \<open>Go strings\<close>

text \<open>
  A Go string is a sequence of bytes; it is modelled as \<^typ>\<open>string\<close>, a list of 8-bit
  characters.  The functions of package \<open>strings\<close> that the program calls are written out
  on bytes, following the behaviour of the Go standard library.
\<close>

text \<open>The six ASCII bytes that \<open>strings.TrimSpace\<close> treats as white space.\<close>

definition asciiSpace :: "char \<Rightarrow> bool" where
  "asciiSpace c \<longleftrightarrow>
     c = CHR 0x09 \<or> c = CHR 0x0A \<or> c = CHR 0x0B \<or> c = CHR 0x0C \<or> c = CHR 0x0D \<or> c = CHR 0x20"

text \<open>
  The UTF-8 encodings of the white-space runes outside ASCII (\<open>unicode.IsSpace\<close>):
  U+0085 and U+00A0 in two bytes; U+1680, U+2000 to U+200A, U+2028, U+2029, U+202F,
  U+205F and U+3000 in three bytes.
\<close>

definition isSpace2 :: "char \<Rightarrow> char \<Rightarrow> bool" where
  "isSpace2 a b \<longleftrightarrow> a = CHR 0xC2 \<and> (b = CHR 0x85 \<or> b = CHR 0xA0)"

definition isSpace3 :: "char \<Rightarrow> char \<Rightarrow> char \<Rightarrow> bool" where
  "isSpace3 a b c \<longleftrightarrow>
     (a = CHR 0xE1 \<and> b = CHR 0x9A \<and> c = CHR 0x80) \<or>
     (a = CHR 0xE2 \<and> b = CHR 0x80 \<and>
        (((0x80::nat) \<le> of_char c \<and> of_char c \<le> (0x8A::nat)) \<or>
         c = CHR 0xA8 \<or> c = CHR 0xA9 \<or> c = CHR 0xAF)) \<or>
     (a = CHR 0xE2 \<and> b = CHR 0x81 \<and> c = CHR 0x9F) \<or>
     (a = CHR 0xE3 \<and> b = CHR 0x80 \<and> c = CHR 0x80)"

text \<open>
  \<open>spaceWidth s\<close> is the number of bytes of the white-space rune that \<open>s\<close> starts with,
  and 0 when \<open>s\<close> does not start with one (the first rune is decoded, then tested with
  \<open>unicode.IsSpace\<close>; an invalid byte decodes to U+FFFD, which is no white space).
\<close>

definition spaceWidth :: "string \<Rightarrow> nat" where
  "spaceWidth s =
     (case s of
        [] \<Rightarrow> 0
      | a # s1 \<Rightarrow>
          if asciiSpace a then 1
          else (case s1 of
                  [] \<Rightarrow> 0
                | b # s2 \<Rightarrow>
                    if isSpace2 a b then 2
                    else (case s2 of
                            [] \<Rightarrow> 0
                          | c # s3 \<Rightarrow> if isSpace3 a b c then 3 else 0)))"

text \<open>
  \<open>lastSpaceWidth s\<close> is the same for the last rune of \<open>s\<close>, which the library decodes
  backwards from the end of the string.
\<close>

definition lastSpaceWidth :: "string \<Rightarrow> nat" where
  "lastSpaceWidth s =
     (case rev s of
        [] \<Rightarrow> 0
      | c # r1 \<Rightarrow>
          if asciiSpace c then 1
          else (case r1 of
                  [] \<Rightarrow> 0
                | b # r2 \<Rightarrow>
                    if isSpace2 b c then 2
                    else (case r2 of
                            [] \<Rightarrow> 0
                          | a # r3 \<Rightarrow> if isSpace3 a b c then 3 else 0)))"

text \<open>\<open>strings.TrimLeftFunc(s, unicode.IsSpace)\<close>: skip white-space runes from the front.\<close>

function TrimLeftSpace :: "string \<Rightarrow> string" where
  "TrimLeftSpace s = (if spaceWidth s = 0 then s else TrimLeftSpace (drop (spaceWidth s) s))"
  by pat_completeness auto
termination
proof (relation "measure length")
  show "wf (measure length)" by simp
next
  fix s :: string
  assume "spaceWidth s \<noteq> 0"
  then have "s \<noteq> []" by (auto simp: spaceWidth_def)
  with \<open>spaceWidth s \<noteq> 0\<close> show "(drop (spaceWidth s) s, s) \<in> measure length"
    by simp
qed

text \<open>\<open>strings.TrimRightFunc(s, unicode.IsSpace)\<close>: skip white-space runes from the back.\<close>

function TrimRightSpace :: "string \<Rightarrow> string" where
  "TrimRightSpace s =
     (if lastSpaceWidth s = 0 then s else TrimRightSpace (take (length s - lastSpaceWidth s) s))"
  by pat_completeness auto
termination
proof (relation "measure length")
  show "wf (measure length)" by simp
next
  fix s :: string
  assume "lastSpaceWidth s \<noteq> 0"
  then have "s \<noteq> []" by (auto simp: lastSpaceWidth_def)
  with \<open>lastSpaceWidth s \<noteq> 0\<close>
  show "(take (length s - lastSpaceWidth s) s, s) \<in> measure length"
    by simp
qed

declare TrimLeftSpace.simps [simp del]
declare TrimRightSpace.simps [simp del]

text \<open>\<open>strings.TrimSpace\<close>: leading white space is removed first, then trailing.\<close>

definition TrimSpace :: "string \<Rightarrow> string" where
  "TrimSpace s = TrimRightSpace (TrimLeftSpace s)"

text \<open>\<open>strings.HasPrefix\<close> and \<open>strings.TrimPrefix\<close>.\<close>

fun HasPrefix :: "string \<Rightarrow> string \<Rightarrow> bool" where
  "HasPrefix s [] = True"
| "HasPrefix [] (p # ps) = False"
| "HasPrefix (c # cs) (p # ps) = (c = p \<and> HasPrefix cs ps)"

definition TrimPrefix :: "string \<Rightarrow> string \<Rightarrow> string" where
  "TrimPrefix s p = (if HasPrefix s p then drop (length p) s else s)"

text \<open>\<open>strings.Join\<close>.\<close>

fun Join :: "string list \<Rightarrow> string \<Rightarrow> string" where
  "Join [] sep = []"
| "Join [x] sep = x"
| "Join (x # y # xs) sep = x @ sep @ Join (y # xs) sep"

text \<open>
  \<open>strings.ToUpper\<close> depends on the Unicode case tables; the program's functions take it
  from the environment (field \<open>ToUpper\<close> below).  On strings of ASCII bytes it is
  \<open>asciiUpper\<close>.
\<close>

definition asciiUpperChar :: "char \<Rightarrow> char" where
  "asciiUpperChar c =
     (if (97::nat) \<le> of_char c \<and> of_char c \<le> (122::nat)
      then char_of (of_char c - (32::nat)) else c)"

definition asciiUpper :: "string \<Rightarrow> string" where
  "asciiUpper s = map asciiUpperChar s"

section \<open>The table widget\<close>

text \<open>
  Of the table of the terminal library the program uses the rows, the columns, the cursor
  and the focus flag.  A row is the list of its cells.
\<close>

type_synonym Row = "string list"

record Column =
  Title :: string
  Width :: int

subsection \<open>The pivot: \<open>ToVerticalView\<close>\<close>

text \<open>
  The loop \<open>for i := range cols\<close> of \<open>ToVerticalView\<close>, started at index \<open>i\<close> on the
  columns from \<open>i\<close> on: each column gives the row of its title and of cell \<open>i\<close> of \<open>row\<close>,
  the empty string when \<open>row\<close> has no cell \<open>i\<close>.
\<close>

primrec verticalRows :: "Row \<Rightarrow> nat \<Rightarrow> Column list \<Rightarrow> Row list" where
  "verticalRows row i [] = []"
| "verticalRows row i (c # cs) =
     [Title c, (if i < length row then row ! i else [])] # verticalRows row (Suc i) cs"

definition verticalCols :: "Column list" where
  "verticalCols = [\<lparr>Title = ''column'', Width = 30\<rparr>, \<lparr>Title = ''val'', Width = 50\<rparr>]"

definition ToVerticalView :: "Row list \<Rightarrow> Column list \<Rightarrow> Row list \<times> Column list" where
  "ToVerticalView rows cols =
     (case rows of
        [] \<Rightarrow> (rows, cols)
      | row # _ \<Rightarrow> (verticalRows row 0 cols, verticalCols))"

subsection \<open>Rows, columns and cursor of \<open>table.Model\<close>\<close>

record TableModel =
  t_rows :: "Row list"
  t_cols :: "Column list"
  t_cursor :: int
  t_focus :: bool

text \<open>
  \<open>SetRows\<close> pulls the cursor back onto the last row, \<open>SetCursor\<close> clamps it between 0
  and the last row (in this order: an empty table gives cursor \<open>-1\<close>), and \<open>SelectedRow\<close>
  is nil, the empty row, when the cursor is on no row.  Rendering is left out.
\<close>

definition SetRows :: "TableModel \<Rightarrow> Row list \<Rightarrow> TableModel" where
  "SetRows t r =
     (if t_cursor t > int (length r) - 1
      then t\<lparr>t_rows := r, t_cursor := int (length r) - 1\<rparr>
      else t\<lparr>t_rows := r\<rparr>)"

definition SetColumns :: "TableModel \<Rightarrow> Column list \<Rightarrow> TableModel" where
  "SetColumns t c = t\<lparr>t_cols := c\<rparr>"

definition SetCursor :: "TableModel \<Rightarrow> int \<Rightarrow> TableModel" where
  "SetCursor t n = t\<lparr>t_cursor := min (max n 0) (int (length (t_rows t)) - 1)\<rparr>"

definition SelectedRow :: "TableModel \<Rightarrow> Row" where
  "SelectedRow t =
     (if t_cursor t < 0 \<or> t_cursor t \<ge> int (length (t_rows t)) then []
      else t_rows t ! nat (t_cursor t))"

record TextInput =
  ti_value :: string
  ti_focus :: bool

section \<open>Errors, commands and the environment\<close>

datatype error =
    ErrNoRows
  | NoSuchTable string
  | BackendError string
  | JsonError string
  | SliceBounds
  | Exit int

text \<open>
  \<open>ErrNoRows\<close> is \<open>sql.ErrNoRows\<close>; \<open>NoSuchTable\<close> is the failure of a statement on a table
  that the local store lacks (\<open>Init\<close> ignores the result of its schema script);
  \<open>BackendError\<close> is a failure of the queried database; \<open>JsonError\<close> is a failure of
  \<open>json.Unmarshal\<close>; \<open>SliceBounds\<close> is the panic of a slice expression out of range;
  \<open>Exit\<close> is \<open>os.Exit\<close>.
\<close>

datatype Cmd = NoCmd | Quit | Printf string error | WidgetCmd nat | BatchCmd "Cmd list"

text \<open>\<open>tea.Batch\<close>: nil commands are dropped; none left is nil, one left is that command.\<close>

definition Batch :: "Cmd list \<Rightarrow> Cmd" where
  "Batch cmds =
     (case filter (\<lambda>c. c \<noteq> NoCmd) cmds of
        [] \<Rightarrow> NoCmd
      | [c] \<Rightarrow> c
      | c # d # cs \<Rightarrow> BatchCmd (c # d # cs))"

datatype Msg = KeyMsg string | OtherMsg nat

text \<open>The display configuration of a query, \<open>QueryConfig\<close>; a Go map is a partial function.\<close>

record QueryConfig =
  Widths :: "string \<rightharpoonup> int"
  Aliases :: "string \<rightharpoonup> string"
  Height :: int

text \<open>
  What the driver of the queried database hands to \<open>GetContent\<close>: a scanned value is nil,
  a byte slice, a string, or a value of another type, given by its \<open>%v\<close> rendering.
\<close>

datatype val = VNil | VBytes string | VString string | VOther string

record result =
  columns :: "error + string list"
  scanned :: "(error + val list) list"

text \<open>
  The environment: the library functions that are not written out (\<open>strings.ToUpper\<close>,
  \<open>sha256.Sum256\<close>, \<open>json.Unmarshal\<close> into a \<open>QueryConfig\<close>, the \<open>Update\<close> functions of the
  two widgets) and the answer of the queried database to a query text (\<open>db.Query\<close>), which
  is taken to be the same each time the text is sent.
\<close>

record env =
  ToUpper :: "string \<Rightarrow> string"
  Sum256 :: "string \<Rightarrow> 8 word list"
  Unmarshal :: "string \<Rightarrow> error + QueryConfig"
  Query :: "string \<Rightarrow> error + result"
  tableUpdate :: "TableModel \<Rightarrow> Msg \<Rightarrow> TableModel \<times> Cmd"
  textInputUpdate :: "TextInput \<Rightarrow> Msg \<Rightarrow> TextInput \<times> Cmd"

section \<open>The local store\<close>

text \<open>
  The rows of the tables \<open>items\<close>, \<open>config\<close>, \<open>queries\<close> and \<open>instance\<close> of the schema of
  \<open>Init\<close>.  A table is the list of its rows in insertion order, and \<open>None\<close> when the store
  has no such table.  A nullable column that the program reads is an option.  Values are
  kept as the program passes them: the conversion that the store applies to a text that
  reads as a number, in the columns declared \<open>STRING\<close>, is not modelled.  A statement fails
  only when its table is missing.  \<open>executed\<close> lists the query texts sent to the queried
  database, the latest last.
\<close>

record item_row =
  item_id :: int
  item_id_db :: int
  item_name :: string

record config_row =
  cfg_id_item :: int
  cfg_uid :: string
  cfg_var :: string
  cfg_val :: string

record query_row =
  qry_id :: int
  qry_id_item :: int
  qry_name :: string
  qry_query :: string
  qry_config :: "string option"
  qry_height :: "int option"

record instance_row =
  ins_uid :: string
  ins_id_query :: int
  ins_hash :: string
  ins_filter :: string

record world =
  tbl_items :: "item_row list option"
  tbl_config :: "config_row list option"
  tbl_queries :: "query_row list option"
  tbl_instance :: "instance_row list option"
  executed :: "string list"

subsection \<open>Reading the display configuration: \<open>GetQueryConfig\<close>\<close>

text \<open>
  \<open>SELECT config, COALESCE(height, 10) FROM queries WHERE name = ?\<close> read with
  \<open>QueryRow\<close>: the first row of that name, \<open>ErrNoRows\<close> when there is none.
\<close>

definition GetQueryConfig ::
  "env \<Rightarrow> world \<Rightarrow> string \<Rightarrow> error + ((string \<rightharpoonup> int) \<times> (string \<rightharpoonup> string) \<times> int)" where
  "GetQueryConfig e w sqlName =
     (case tbl_queries w of
        None \<Rightarrow> Inl (NoSuchTable ''queries'')
      | Some qs \<Rightarrow>
          (case find (\<lambda>q. qry_name q = sqlName) qs of
             None \<Rightarrow> Inl ErrNoRows
           | Some q \<Rightarrow>
               (let tableHeight = (case qry_height q of None \<Rightarrow> 10 | Some h \<Rightarrow> h) in
                case qry_config q of
                  None \<Rightarrow> Inr (Map.empty, Map.empty, tableHeight)
                | Some configJSON \<Rightarrow>
                    if configJSON = [] then Inr (Map.empty, Map.empty, tableHeight)
                    else (case Unmarshal e configJSON of
                            Inl err \<Rightarrow> Inl err
                          | Inr config \<Rightarrow>
                              Inr (Widths config, Aliases config,
                                   if Height config = 0 then tableHeight else Height config)))))"

subsection \<open>Saving the selected row: \<open>SaveConfigFromTable\<close>\<close>

text \<open>
  \<open>InsertItemIfNotExists\<close>: the item is inserted when no row has its name; the new id is
  one more than the largest id of the table.
\<close>

definition InsertItemIfNotExists :: "world \<Rightarrow> string \<Rightarrow> int \<Rightarrow> error option \<times> world" where
  "InsertItemIfNotExists w item idDB =
     (case tbl_items w of
        None \<Rightarrow> (Some (NoSuchTable ''items''), w)
      | Some its \<Rightarrow>
          if length (filter (\<lambda>r. item_name r = item) its) = 0
          then (None, w\<lparr>tbl_items := Some (its @
                  [\<lparr>item_id = foldr max (map item_id its) 0 + 1, item_id_db = idDB,
                    item_name = item\<rparr>])\<rparr>)
          else (None, w))"

definition GetItemID :: "world \<Rightarrow> string \<Rightarrow> error + int" where
  "GetItemID w itemName =
     (case tbl_items w of
        None \<Rightarrow> Inl (NoSuchTable ''items'')
      | Some its \<Rightarrow>
          (case find (\<lambda>r. item_name r = itemName) its of
             None \<Rightarrow> Inl ErrNoRows
           | Some r \<Rightarrow> Inr (item_id r)))"

text \<open>
  \<open>INSERT OR REPLACE INTO config (id_item, uid, var, val)\<close> under the primary key
  \<open>(id_item, uid, var)\<close>: the rows of the same key are deleted, the new row is added.
\<close>

definition replaceConfig :: "config_row list \<Rightarrow> config_row \<Rightarrow> config_row list" where
  "replaceConfig rs n =
     filter (\<lambda>r. \<not> (cfg_id_item r = cfg_id_item n \<and> cfg_uid r = cfg_uid n \<and>
                      cfg_var r = cfg_var n)) rs @ [n]"

definition execReplaceConfig :: "world \<Rightarrow> config_row \<Rightarrow> error + world" where
  "execReplaceConfig w n =
     (case tbl_config w of
        None \<Rightarrow> Inl (NoSuchTable ''config'')
      | Some rs \<Rightarrow> Inr (w\<lparr>tbl_config := Some (replaceConfig rs n)\<rparr>))"

text \<open>
  The loop \<open>for i := range cols\<close> of \<open>SaveConfigFromTable\<close>, from index \<open>i\<close> on the columns
  from \<open>i\<close> on.  It returns at the first statement that fails; what was written before
  stays written.
\<close>

fun saveColumns ::
  "env \<Rightarrow> int \<Rightarrow> string \<Rightarrow> Row \<Rightarrow> (string \<rightharpoonup> string) \<Rightarrow> nat \<Rightarrow> Column list \<Rightarrow> world
     \<Rightarrow> error option \<times> world" where
  "saveColumns e idItem uid row aliases i [] w = (None, w)"
| "saveColumns e idItem uid row aliases i (c # cs) w =
     (if i < length row then
        (let colTitle = ToUpper e (Title c) in
         case aliases colTitle of
           Some alias \<Rightarrow>
             (let varValue = row ! i in
              case execReplaceConfig w
                     \<lparr>cfg_id_item = idItem, cfg_uid = uid, cfg_var = alias, cfg_val = varValue\<rparr> of
                Inl err \<Rightarrow> (Some err, w)
              | Inr w' \<Rightarrow> saveColumns e idItem uid row aliases (Suc i) cs w')
         | None \<Rightarrow> saveColumns e idItem uid row aliases (Suc i) cs w)
      else saveColumns e idItem uid row aliases (Suc i) cs w)"

definition SaveConfigFromTable ::
  "env \<Rightarrow> world \<Rightarrow> string \<Rightarrow> int \<Rightarrow> string \<Rightarrow> Row \<Rightarrow> Column list \<Rightarrow> (string \<rightharpoonup> string)
     \<Rightarrow> error option \<times> world" where
  "SaveConfigFromTable e w itemName idDB uid row cols aliases =
     (case InsertItemIfNotExists w itemName idDB of
        (Some err, w1) \<Rightarrow> (Some err, w1)
      | (None, w1) \<Rightarrow>
          (case GetItemID w1 itemName of
             Inl err \<Rightarrow> (Some err, w1)
           | Inr idItem \<Rightarrow> saveColumns e idItem uid row aliases 0 cols w1))"

text \<open>
  The rows that a confirmation of \<open>row\<close> under \<open>cols\<close> is to write, in the order of the
  columns, the first column having index \<open>i0\<close>: for each column that has a cell in the row
  and whose upper-cased title has an alias, the row of the item, the token, the alias and
  the cell.
\<close>

definition aliasedCells ::
  "env \<Rightarrow> int \<Rightarrow> string \<Rightarrow> Row \<Rightarrow> (string \<rightharpoonup> string) \<Rightarrow> nat \<Rightarrow> Column list \<Rightarrow> config_row list" where
  "aliasedCells e idItem uid row aliases i0 cols =
     concat (map (\<lambda>(i, c).
        if i < length row then
          (case aliases (ToUpper e (Title c)) of
             Some alias \<Rightarrow>
               [\<lparr>cfg_id_item = idItem, cfg_uid = uid, cfg_var = alias, cfg_val = row ! i\<rparr>]
           | None \<Rightarrow> [])
        else []) (enumerate i0 cols))"

subsection \<open>Session instances: \<open>SaveInstance\<close> and the lookups\<close>

text \<open>
  SQL \<open>hex\<close> gives two upper-case digits for each byte, SQL \<open>lower\<close> folds the ASCII
  letters; \<open>randomblob(16)\<close> is the next 16 bytes of the random source \<open>rnd\<close>.
\<close>

definition sqlHexByte :: "8 word \<Rightarrow> string" where
  "sqlHexByte b = [''0123456789ABCDEF'' ! (unat b div 16), ''0123456789ABCDEF'' ! (unat b mod 16)]"

definition sqlHex :: "8 word list \<Rightarrow> string" where
  "sqlHex bs = concat (map sqlHexByte bs)"

definition sqlLowerChar :: "char \<Rightarrow> char" where
  "sqlLowerChar c =
     (if (65::nat) \<le> of_char c \<and> of_char c \<le> (90::nat)
      then char_of (of_char c + (32::nat)) else c)"

definition sqlLower :: "string \<Rightarrow> string" where
  "sqlLower s = map sqlLowerChar s"

definition randomblob :: "nat \<Rightarrow> (nat \<Rightarrow> 8 word) \<Rightarrow> 8 word list" where
  "randomblob n rnd = map rnd [0..<n]"

text \<open>A slice expression \<open>s[lo:hi]\<close> within range.\<close>

definition slice :: "string \<Rightarrow> nat \<Rightarrow> nat \<Rightarrow> string" where
  "slice s lo hi = take (hi - lo) (drop lo s)"

text \<open>
  The canonical grouped form of a token: five groups of 8, 4, 4, 4 and 12 lower-case
  hexadecimal digits, separated by dashes.
\<close>

definition isLowerHex :: "char \<Rightarrow> bool" where
  "isLowerHex c \<longleftrightarrow> c \<in> set ''0123456789abcdef''"

definition canonicalUUID :: "string \<Rightarrow> bool" where
  "canonicalUUID s \<longleftrightarrow>
     length s = 36 \<and>
     list_all isLowerHex (take 8 s) \<and> s ! 8 = CHR ''-'' \<and>
     list_all isLowerHex (take 4 (drop 9 s)) \<and> s ! 13 = CHR ''-'' \<and>
     list_all isLowerHex (take 4 (drop 14 s)) \<and> s ! 18 = CHR ''-'' \<and>
     list_all isLowerHex (take 4 (drop 19 s)) \<and> s ! 23 = CHR ''-'' \<and>
     list_all isLowerHex (drop 24 s)"

text \<open>
  \<open>generateUUID\<close>: the five slice expressions panic when the text is shorter than their
  upper bound, of which 32 is the largest.
\<close>

definition generateUUID :: "(nat \<Rightarrow> 8 word) \<Rightarrow> error + string" where
  "generateUUID rnd =
     (let hex = sqlLower (sqlHex (randomblob 16 rnd)) in
      if length hex < 32 then Inl SliceBounds
      else Inr (slice hex 0 8 @ ''-'' @ slice hex 8 12 @ ''-'' @ slice hex 12 16 @ ''-'' @
                slice hex 16 20 @ ''-'' @ slice hex 20 32))"

text \<open>
  \<open>INSERT OR REPLACE INTO instance (uid, id_query, hash, filter)\<close> under the primary key
  \<open>(uid, id_query)\<close>.
\<close>

definition replaceInstance :: "instance_row list \<Rightarrow> instance_row \<Rightarrow> instance_row list" where
  "replaceInstance rs n =
     filter (\<lambda>r. \<not> (ins_uid r = ins_uid n \<and> ins_id_query r = ins_id_query n)) rs @ [n]"

definition SaveInstance ::
  "(nat \<Rightarrow> 8 word) \<Rightarrow> world \<Rightarrow> int \<Rightarrow> string \<Rightarrow> string \<Rightarrow> string \<Rightarrow> error + (string \<times> world)" where
  "SaveInstance rnd w idQuery hash providedUID filter_text =
     (case (if providedUID = [] then generateUUID rnd else Inr providedUID) of
        Inl err \<Rightarrow> Inl err
      | Inr uid \<Rightarrow>
          (case tbl_instance w of
             None \<Rightarrow> Inl (NoSuchTable ''instance'')
           | Some rs \<Rightarrow>
               Inr (uid, w\<lparr>tbl_instance := Some (replaceInstance rs
                      \<lparr>ins_uid = uid, ins_id_query = idQuery, ins_hash = hash,
                        ins_filter = filter_text\<rparr>)\<rparr>)))"

definition GetHashByUID :: "world \<Rightarrow> string \<Rightarrow> int \<Rightarrow> error + string" where
  "GetHashByUID w uid idQuery =
     (case tbl_instance w of
        None \<Rightarrow> Inl (NoSuchTable ''instance'')
      | Some rs \<Rightarrow>
          (case find (\<lambda>r. ins_uid r = uid \<and> ins_id_query r = idQuery) rs of
             None \<Rightarrow> Inl ErrNoRows
           | Some r \<Rightarrow> Inr (ins_hash r)))"

definition GetFilterByUID :: "world \<Rightarrow> string \<Rightarrow> int \<Rightarrow> error + string" where
  "GetFilterByUID w uid idQuery =
     (case tbl_instance w of
        None \<Rightarrow> Inl (NoSuchTable ''instance'')
      | Some rs \<Rightarrow>
          (case find (\<lambda>r. ins_uid r = uid \<and> ins_id_query r = idQuery) rs of
             None \<Rightarrow> Inl ErrNoRows
           | Some r \<Rightarrow> Inr (ins_filter r)))"

section \<open>Running a query: \<open>GetContent\<close>\<close>

text \<open>
  A scanned row has one value for each column: the values start as nil and \<open>Scan\<close> fills
  them.  nil becomes the empty string, bytes and strings are taken as they are, any other
  value is rendered.
\<close>

definition renderVal :: "val \<Rightarrow> string" where
  "renderVal v = (case v of VNil \<Rightarrow> [] | VBytes b \<Rightarrow> b | VString s \<Rightarrow> s | VOther s \<Rightarrow> s)"

definition renderRow :: "nat \<Rightarrow> val list \<Rightarrow> Row" where
  "renderRow n vs = map renderVal (take n (vs @ replicate (n - length vs) VNil))"

text \<open>The loop \<open>for rows.Next()\<close>: it returns at the first row whose \<open>Scan\<close> fails.\<close>

fun scanRows :: "nat \<Rightarrow> (error + val list) list \<Rightarrow> error + Row list" where
  "scanRows n [] = Inr []"
| "scanRows n (Inl err # ss) = Inl err"
| "scanRows n (Inr vs # ss) =
     (case scanRows n ss of Inl err \<Rightarrow> Inl err | Inr rs \<Rightarrow> Inr (renderRow n vs # rs))"

definition GetContent ::
  "env \<Rightarrow> world \<Rightarrow> string \<Rightarrow> (error + (Row list \<times> Column list)) \<times> world" where
  "GetContent e w sqlQuery =
     (let w' = w\<lparr>executed := executed w @ [sqlQuery]\<rparr> in
      case Query e sqlQuery of
        Inl err \<Rightarrow> (Inl err, w')
      | Inr res \<Rightarrow>
          (case columns res of
             Inl err \<Rightarrow> (Inl err, w')
           | Inr cols \<Rightarrow>
               (case scanRows (length cols) (scanned res) of
                  Inl err \<Rightarrow> (Inl err, w')
                | Inr rs \<Rightarrow>
                    (Inr (rs, map (\<lambda>col. \<lparr>Title = ToUpper e col, Width = 20\<rparr>) cols), w'))))"

section \<open>The model of the interface\<close>

record Model =
  m_table :: TableModel
  m_textInput :: TextInput
  m_itemName :: string
  m_sqlName :: string
  m_sqlQuery :: string
  m_idDB :: int
  m_idQuery :: int
  m_height :: int
  m_aliases :: "string \<rightharpoonup> string"
  m_initialFilter :: string
  m_uid :: string
  m_filter :: string
  m_view :: string

text \<open>\<open>fmt.Sprintf("%x", ...)\<close> of a byte array: two lower-case digits for each byte.\<close>

definition hexByte :: "8 word \<Rightarrow> string" where
  "hexByte b = [''0123456789abcdef'' ! (unat b div 16), ''0123456789abcdef'' ! (unat b mod 16)]"

definition hexString :: "8 word list \<Rightarrow> string" where
  "hexString bs = concat (map hexByte bs)"

subsection \<open>\<open>SelectRowByHash\<close>\<close>

text \<open>
  The loop over the rows, from index \<open>i\<close> on the rows from \<open>i\<close> on: the index of the first
  row whose digest is the target.
\<close>

fun findRowByHash :: "env \<Rightarrow> string \<Rightarrow> nat \<Rightarrow> Row list \<Rightarrow> nat option" where
  "findRowByHash e targetHash i [] = None"
| "findRowByHash e targetHash i (row # rest) =
     (let hash = hexString (Sum256 e (Join row ''|'')) in
      if hash = targetHash then Some i else findRowByHash e targetHash (Suc i) rest)"

definition SelectRowByHash :: "env \<Rightarrow> Model \<Rightarrow> string \<Rightarrow> Model" where
  "SelectRowByHash e m targetHash =
     (case findRowByHash e targetHash 0 (t_rows (m_table m)) of
        None \<Rightarrow> m
      | Some i \<Rightarrow> m\<lparr>m_table := SetCursor (m_table m) (int i)\<rparr>)"

subsection \<open>\<open>FilterContent\<close>\<close>

text \<open>The body of the loop over the columns: the alias of the upper-cased title, then the width.\<close>

definition resolveWidth ::
  "env \<Rightarrow> (string \<rightharpoonup> int) \<Rightarrow> (string \<rightharpoonup> string) \<Rightarrow> Column \<Rightarrow> Column" where
  "resolveWidth e widths originalToAlias c =
     (let colTitle = ToUpper e (Title c);
          originalName = (case originalToAlias colTitle of Some alias \<Rightarrow> alias | None \<Rightarrow> colTitle)
      in case widths originalName of
           Some width \<Rightarrow> c\<lparr>Width := width\<rparr>
         | None \<Rightarrow> c\<lparr>Width := 20\<rparr>)"

definition FilterContent ::
  "env \<Rightarrow> world \<Rightarrow> Model \<Rightarrow> string \<Rightarrow> (error + (Row list \<times> Column list)) \<times> world" where
  "FilterContent e w m filter0 =
     (let filter1 = TrimSpace filter0;
          filter2 = TrimPrefix filter1 ''WHERE'';
          filter3 = TrimSpace filter2;
          (widths, aliases) =
             (case GetQueryConfig e w (m_sqlName m) of
                Inl err \<Rightarrow> (Map.empty, Map.empty)
              | Inr (ws, as, h) \<Rightarrow> (ws, as));
          (res, w') =
             (if filter3 = [] then GetContent e w (m_sqlQuery m)
              else (let wrappedQuery = ''SELECT * FROM ('' @ m_sqlQuery m @ '')'';
                        filteredQuery = wrappedQuery @ '' WHERE '' @ filter3
                    in GetContent e w filteredQuery))
      in case res of
           Inl err \<Rightarrow> (Inl err, w')
         | Inr (rows, cols) \<Rightarrow>
             (let cols' = map (resolveWidth e widths aliases) cols
              in (Inr (if m_view m = ''c'' then ToVerticalView rows cols' else (rows, cols')), w')))"

subsection \<open>\<open>Update\<close>\<close>

text \<open>
  The end of \<open>Update\<close>, reached by every message that does not return earlier: both
  widgets handle the message, the command of the text input is the one returned, and the
  filter field follows a focused text input.
\<close>

definition widgetsUpdate :: "env \<Rightarrow> Model \<Rightarrow> Msg \<Rightarrow> Model \<times> Cmd" where
  "widgetsUpdate e m msg =
     (let (t, cmd1) = tableUpdate e (m_table m) msg;
          (ti, cmd2) = textInputUpdate e (m_textInput m) msg;
          m1 = m\<lparr>m_table := t, m_textInput := ti\<rparr>
      in (if ti_focus ti then m1\<lparr>m_filter := ti_value ti\<rparr> else m1, cmd2))"

text \<open>
  \<open>Update\<close> takes the random source for the token that \<open>SaveInstance\<close> may generate.
  What is written to the log file is left out.
\<close>

definition Update ::
  "env \<Rightarrow> (nat \<Rightarrow> 8 word) \<Rightarrow> world \<Rightarrow> Model \<Rightarrow> Msg \<Rightarrow> (Model \<times> Cmd) \<times> world" where
  "Update e rnd w m msg =
     (case msg of
        OtherMsg n \<Rightarrow> (widgetsUpdate e m msg, w)
      | KeyMsg key \<Rightarrow>
          if key = ''tab'' then
            (if t_focus (m_table m)
             then (widgetsUpdate e
                     (m\<lparr>m_table := (m_table m)\<lparr>t_focus := False\<rparr>,
                        m_textInput := (m_textInput m)\<lparr>ti_focus := True\<rparr>\<rparr>) msg, w)
             else (widgetsUpdate e
                     (m\<lparr>m_textInput := (m_textInput m)\<lparr>ti_focus := False\<rparr>,
                        m_table := (m_table m)\<lparr>t_focus := True\<rparr>\<rparr>) msg, w))
          else if key = ''esc'' then
            (if t_focus (m_table m)
             then (widgetsUpdate e (m\<lparr>m_table := (m_table m)\<lparr>t_focus := False\<rparr>\<rparr>) msg, w)
             else (widgetsUpdate e (m\<lparr>m_table := (m_table m)\<lparr>t_focus := True\<rparr>\<rparr>) msg, w))
          else if key = ''ctrl+c'' then ((m, Quit), w)
          else if key = ''enter'' then
            (if ti_focus (m_textInput m) then
               (let filter0 = ti_value (m_textInput m) in
                case FilterContent e w m filter0 of
                  (Inl err, w1) \<Rightarrow>
                    ((m, Batch [Printf (CHR 0x0A # ''Error filtering: %v'' @ [CHR 0x0A]) err]), w1)
                | (Inr (rows, cols), w1) \<Rightarrow>
                    (let t = SetColumns (SetRows (m_table m) rows) cols;
                         row = SelectedRow t;
                         hash = hexString (Sum256 e (Join row ''|''));
                         w2 = (case SaveInstance rnd w1 (m_idQuery m) hash (m_uid m) filter0 of
                                 Inl err \<Rightarrow> w1
                               | Inr (uid, w') \<Rightarrow> w')
                     in ((m\<lparr>m_table := t\<rparr>, Batch []), w2)))
             else
               (let row = SelectedRow (m_table m);
                    hash = hexString (Sum256 e (Join row ''|''));
                    cols = t_cols (m_table m)
                in case SaveConfigFromTable e w (m_itemName m) (m_idDB m) (m_uid m) row cols
                          (m_aliases m) of
                     (Some err, w1) \<Rightarrow>
                       ((m, Batch [Printf (CHR 0x0A # ''Error saving to config: %v'' @ [CHR 0x0A])
                                     err]), w1)
                   | (None, w1) \<Rightarrow>
                       (let w2 = (case SaveInstance rnd w1 (m_idQuery m) hash (m_uid m)
                                         (ti_value (m_textInput m)) of
                                    Inl err \<Rightarrow> w1
                                  | Inr (uid, w') \<Rightarrow> w')
                        in ((m, Batch []), w2))))
          else (widgetsUpdate e m msg, w))"

section \<open>Start-up: the first table of \<open>main\<close>\<close>

definition applyColumnWidths ::
  "Column list \<Rightarrow> (string \<rightharpoonup> int) \<Rightarrow> (string \<rightharpoonup> string) \<Rightarrow> Column list" where
  "applyColumnWidths columns0 widths aliases =
     map (\<lambda>c. let fieldName = Title c in
               case widths fieldName of
                 Some width \<Rightarrow> c\<lparr>Width := width\<rparr>
               | None \<Rightarrow> c\<lparr>Width := 20\<rparr>) columns0"

text \<open>
  The part of \<open>main\<close> that produces the rows and columns of the first table, with no
  filter given: the display configuration is read, the query is run, and the widths are
  applied.  Each failure, and an empty result, ends the process with code 1.
\<close>

definition mainContent ::
  "env \<Rightarrow> world \<Rightarrow> string \<Rightarrow> string \<Rightarrow> (error + (Row list \<times> Column list)) \<times> world" where
  "mainContent e w sqlName sqlQuery =
     (case GetQueryConfig e w sqlName of
        Inl err \<Rightarrow> (Inl (Exit 1), w)
      | Inr (widths, aliases, tblHeight) \<Rightarrow>
          (case GetContent e w sqlQuery of
             (Inl err, w1) \<Rightarrow> (Inl (Exit 1), w1)
           | (Inr (rows, columns0), w1) \<Rightarrow>
               if length rows = 0 \<or> length columns0 = 0 then (Inl (Exit 1), w1)
               else (Inr (rows, applyColumnWidths columns0 widths aliases), w1)))"

section \<open>An environment, a store and a model for the examples\<close>

text \<open>
  The theorems below hold for every environment.  Their examples are evaluated in this
  one: \<open>asciiUpper\<close> for \<open>strings.ToUpper\<close>, which it is on the ASCII texts of the examples;
  a two-byte check sum in the place of \<open>sha256.Sum256\<close>; the values of \<open>json.Unmarshal\<close>
  at a configuration with a width and an alias and at the empty object, every other text
  counting as malformed, as the text \<open>{bad\<close> of the examples is; a queried database with a
  table of two users, which rejects every other query; widgets that ignore every message.
\<close>

definition exampleSum :: "string \<Rightarrow> 8 word list" where
  "exampleSum s = [of_nat (length s), of_nat (sum_list (map of_char s))]"

definition exampleUnmarshal :: "string \<Rightarrow> error + QueryConfig" where
  \<open>exampleUnmarshal s =
     (if s = ''{"widths":{"N":30},"aliases":{"NAME":"N"}}''
      then Inr \<lparr>Widths = [''N'' \<mapsto> 30], Aliases = [''NAME'' \<mapsto> ''N''], Height = 0\<rparr>
      else if s = ''{}''
      then Inr \<lparr>Widths = Map.empty, Aliases = Map.empty, Height = 0\<rparr>
      else Inl (JsonError ''invalid character''))\<close>

definition exampleQuery :: "string \<Rightarrow> error + result" where
  "exampleQuery q =
     (if q = ''SELECT id, name FROM users''
      then Inr \<lparr>columns = Inr [''id'', ''name''],
                scanned = [Inr [VOther ''1'', VString ''ann''], Inr [VOther ''2'', VNil]]\<rparr>
      else Inl (BackendError ''syntax error''))"

definition exampleEnv :: env where
  "exampleEnv =
     \<lparr>ToUpper = asciiUpper, Sum256 = exampleSum, Unmarshal = exampleUnmarshal,
      Query = exampleQuery, tableUpdate = (\<lambda>t msg. (t, NoCmd)),
      textInputUpdate = (\<lambda>ti msg. (ti, NoCmd))\<rparr>"

definition queryAllUsers :: query_row where
  \<open>queryAllUsers =
     \<lparr>qry_id = 1, qry_id_item = 1, qry_name = ''all_users'',
      qry_query = ''SELECT id, name FROM users'',
      qry_config = Some ''{"widths":{"N":30},"aliases":{"NAME":"N"}}'',
      qry_height = Some 5\<rparr>\<close>

definition queryPlain :: query_row where
  "queryPlain =
     \<lparr>qry_id = 2, qry_id_item = 1, qry_name = ''plain'',
      qry_query = ''SELECT id, name FROM users'', qry_config = None, qry_height = Some 7\<rparr>"

definition queryBlank :: query_row where
  "queryBlank =
     \<lparr>qry_id = 3, qry_id_item = 1, qry_name = ''blank'',
      qry_query = ''SELECT id, name FROM users'', qry_config = Some [], qry_height = None\<rparr>"

definition queryBroken :: query_row where
  "queryBroken =
     \<lparr>qry_id = 4, qry_id_item = 1, qry_name = ''broken'',
      qry_query = ''SELECT id, name FROM users'', qry_config = Some ''{bad'',
      qry_height = Some 7\<rparr>"

definition exampleWorld :: world where
  "exampleWorld =
     \<lparr>tbl_items = Some [\<lparr>item_id = 1, item_id_db = 1, item_name = ''users''\<rparr>],
      tbl_config = Some [],
      tbl_queries = Some [queryAllUsers, queryPlain, queryBlank, queryBroken],
      tbl_instance = Some [],
      executed = []\<rparr>"

definition exampleModel :: Model where
  "exampleModel =
     \<lparr>m_table = \<lparr>t_rows = [[''1'', ''ann''], [''2'', []]],
                 t_cols = [\<lparr>Title = ''ID'', Width = 20\<rparr>, \<lparr>Title = ''NAME'', Width = 30\<rparr>],
                 t_cursor = 0, t_focus = True\<rparr>,
      m_textInput = \<lparr>ti_value = [], ti_focus = False\<rparr>,
      m_itemName = ''users'', m_sqlName = ''all_users'',
      m_sqlQuery = ''SELECT id, name FROM users'',
      m_idDB = 1, m_idQuery = 1, m_height = 3,
      m_aliases = [''NAME'' \<mapsto> ''N''],
      m_initialFilter = [], m_uid = ''u1'', m_filter = [], m_view = []\<rparr>"

section \<open>The query that \<open>FilterContent\<close> runs\<close>

lemma spaceWidth_TrimLeftSpace: "spaceWidth (TrimLeftSpace s) = 0"
proof (induction s rule: TrimLeftSpace.induct)
  case (1 s)
  show ?case
  proof (cases "spaceWidth s = 0")
    case True
    then show ?thesis by (subst TrimLeftSpace.simps) simp
  next
    case False
    with 1 show ?thesis by (subst TrimLeftSpace.simps) simp
  qed
qed

lemma lastSpaceWidth_TrimRightSpace: "lastSpaceWidth (TrimRightSpace s) = 0"
proof (induction s rule: TrimRightSpace.induct)
  case (1 s)
  show ?case
  proof (cases "lastSpaceWidth s = 0")
    case True
    then show ?thesis by (subst TrimRightSpace.simps) simp
  next
    case False
    with 1 show ?thesis by (subst TrimRightSpace.simps) simp
  qed
qed

lemma spaceWidth_take: "spaceWidth s = 0 \<Longrightarrow> spaceWidth (take k s) = 0"
  by (auto simp: spaceWidth_def take_Cons' split: list.splits if_splits)

lemma spaceWidth_TrimRightSpace: "spaceWidth s = 0 \<Longrightarrow> spaceWidth (TrimRightSpace s) = 0"
proof (induction s rule: TrimRightSpace.induct)
  case (1 s)
  show ?case
  proof (cases "lastSpaceWidth s = 0")
    case True
    with 1 show ?thesis by (subst TrimRightSpace.simps) simp
  next
    case False
    with 1 show ?thesis by (subst TrimRightSpace.simps) (simp add: spaceWidth_take)
  qed
qed

lemma TrimSpace_trimmed: "spaceWidth (TrimSpace s) = 0 \<and> lastSpaceWidth (TrimSpace s) = 0"
  by (simp add: TrimSpace_def spaceWidth_TrimRightSpace spaceWidth_TrimLeftSpace
      lastSpaceWidth_TrimRightSpace)

lemma executed_GetContent: "executed (snd (GetContent e w q)) = executed w @ [q]"
  by (simp add: GetContent_def Let_def split: sum.splits)


lemma HasPrefix_iff: "HasPrefix s p \<longleftrightarrow> (\<exists>r. s = p @ r)"
  by (induction s p rule: HasPrefix.induct) auto

lemma TrimPrefix_append: "TrimPrefix (p @ r) p = r"
  by (simp add: TrimPrefix_def HasPrefix_iff)

lemma snd_FilterContent:
  "snd (FilterContent e w m f) =
     snd (GetContent e w
        (if TrimSpace (TrimPrefix (TrimSpace f) ''WHERE'') = [] then m_sqlQuery m
         else ''SELECT * FROM ('' @ m_sqlQuery m @ '') WHERE '' @
              TrimSpace (TrimPrefix (TrimSpace f) ''WHERE'')))"
  unfolding FilterContent_def Let_def
  by (simp split: prod.splits sum.splits)

text \<open>
  Claim C1.  For every base query and every filter text, \<open>FilterContent\<close> sends exactly
  one query to the queried database, whatever the store holds and whatever the database
  answers.  With \<open>p\<close> the filter after white space was trimmed from both ends, the text
  \<open>WHERE\<close> was removed from its front when it starts with it, and white space was trimmed
  again: when \<open>p\<close> is not empty the query is \<open>SELECT * FROM (base query) WHERE p\<close>, and
  when \<open>p\<close> is empty it is the base query unchanged.  No white space is left at either
  end of \<open>p\<close>.
\<close>

theorem FilterContent_executes_composed_query:
  "let p = TrimSpace (TrimPrefix (TrimSpace f) ''WHERE'') in
     executed (snd (FilterContent e w m f)) =
       executed w @ [if p = [] then m_sqlQuery m
                     else ''SELECT * FROM ('' @ m_sqlQuery m @ '') WHERE '' @ p]
     \<and> spaceWidth p = 0 \<and> lastSpaceWidth p = 0"
  unfolding Let_def
  by (simp only: snd_FilterContent executed_GetContent TrimSpace_trimmed simp_thms)


text \<open>The facts that evaluate the trimming of a given text.\<close>

lemmas trim_eval = TrimSpace_def TrimLeftSpace.simps TrimRightSpace.simps spaceWidth_def
  lastSpaceWidth_def TrimPrefix_def asciiSpace_def isSpace2_def isSpace3_def

theorem FilterContent_executes_composed_query_witness:
  "executed (snd (FilterContent exampleEnv exampleWorld
       (exampleModel\<lparr>m_sqlQuery := ''SELECT * FROM users''\<rparr>)
       (''status = '' @ [CHR 0x27] @ ''active'' @ [CHR 0x27])))
     = [''SELECT * FROM (SELECT * FROM users) WHERE status = '' @ [CHR 0x27] @ ''active'' @ [CHR 0x27]]
   \<and> executed (snd (FilterContent exampleEnv exampleWorld exampleModel
         (''  WHERE id = 5 '' @ [CHR 0xC2, CHR 0xA0])))
     = [''SELECT * FROM (SELECT id, name FROM users) WHERE id = 5'']
   \<and> executed (snd (FilterContent exampleEnv exampleWorld exampleModel ''  WHERE ''))
     = [''SELECT id, name FROM users'']"
proof -
  have a: "executed exampleWorld = []" by (simp add: exampleWorld_def)
  have 1: "executed (snd (FilterContent exampleEnv exampleWorld
       (exampleModel\<lparr>m_sqlQuery := ''SELECT * FROM users''\<rparr>)
       (''status = '' @ [CHR 0x27] @ ''active'' @ [CHR 0x27])))
     = [''SELECT * FROM (SELECT * FROM users) WHERE status = '' @ [CHR 0x27] @ ''active'' @ [CHR 0x27]]"
    using FilterContent_executes_composed_query [of "''status = '' @ [CHR 0x27] @ ''active'' @ [CHR 0x27]"
        exampleEnv exampleWorld "exampleModel\<lparr>m_sqlQuery := ''SELECT * FROM users''\<rparr>"]
    by (simp add: Let_def a trim_eval)
  have 2: "executed (snd (FilterContent exampleEnv exampleWorld exampleModel
         (''  WHERE id = 5 '' @ [CHR 0xC2, CHR 0xA0])))
     = [''SELECT * FROM (SELECT id, name FROM users) WHERE id = 5'']"
    using FilterContent_executes_composed_query [of "''  WHERE id = 5 '' @ [CHR 0xC2, CHR 0xA0]"
        exampleEnv exampleWorld exampleModel]
    by (simp add: Let_def a trim_eval exampleModel_def)
  have 3: "executed (snd (FilterContent exampleEnv exampleWorld exampleModel ''  WHERE ''))
     = [''SELECT id, name FROM users'']"
    using FilterContent_executes_composed_query [of "''  WHERE ''"
        exampleEnv exampleWorld exampleModel]
    by (simp add: Let_def a trim_eval exampleModel_def)
  from 1 2 3 show ?thesis by blast
qed

section \<open>The pivot uses the first row only\<close>

lemma verticalRows_map:
  "verticalRows row i cs =
     map (\<lambda>j. [Title (cs ! j), (if i + j < length row then row ! (i + j) else [])]) [0..<length cs]"
proof (induction cs arbitrary: i)
  case Nil
  then show ?case by simp
next
  case (Cons c cs)
  have "[0..<length (c # cs)] = 0 # map Suc [0..<length cs]"
    by (simp add: upt_conv_Cons map_Suc_upt del: upt_Suc)
  then show ?case using Cons.IH [of "Suc i"] by (simp add: comp_def)
qed

text \<open>
  Claim C9.  For a non-empty list of rows and any list of columns, \<open>ToVerticalView\<close> gives
  one row for each column, in the order of the columns: the title of the column and the
  cell of the first row at the index of the column, the empty string when the first row
  is shorter.  The columns of the result are the two fixed columns \<open>column\<close> (width 30)
  and \<open>val\<close> (width 50).  Replacing the rows after the first by any others does not
  change the result.
\<close>

theorem ToVerticalView_first_row_only:
  assumes "rows \<noteq> []"
  shows "ToVerticalView rows cols =
           (map (\<lambda>i. [Title (cols ! i), (if i < length (hd rows) then hd rows ! i else [])])
                [0..<length cols],
            [\<lparr>Title = ''column'', Width = 30\<rparr>, \<lparr>Title = ''val'', Width = 50\<rparr>])
         \<and> (\<forall>others. ToVerticalView (hd rows # others) cols = ToVerticalView rows cols)"
  using assms
  by (cases rows) (simp_all add: ToVerticalView_def verticalRows_map verticalCols_def)

theorem ToVerticalView_first_row_only_witness:
  "[[''1'', ''ann''], [''2'', ''bob'']] \<noteq> ([] :: Row list)
   \<and> ToVerticalView [[''1'', ''ann''], [''2'', ''bob'']]
       [\<lparr>Title = ''ID'', Width = 20\<rparr>, \<lparr>Title = ''NAME'', Width = 20\<rparr>, \<lparr>Title = ''AGE'', Width = 20\<rparr>]
     = ([[''ID'', ''1''], [''NAME'', ''ann''], [''AGE'', []]],
        [\<lparr>Title = ''column'', Width = 30\<rparr>, \<lparr>Title = ''val'', Width = 50\<rparr>])
   \<and> ToVerticalView [[''1'', ''ann''], [''9'', ''zed''], [''7'', ''kim'']]
       [\<lparr>Title = ''ID'', Width = 20\<rparr>, \<lparr>Title = ''NAME'', Width = 20\<rparr>, \<lparr>Title = ''AGE'', Width = 20\<rparr>]
     = ToVerticalView [[''1'', ''ann''], [''2'', ''bob'']]
       [\<lparr>Title = ''ID'', Width = 20\<rparr>, \<lparr>Title = ''NAME'', Width = 20\<rparr>, \<lparr>Title = ''AGE'', Width = 20\<rparr>]"
proof -
  have ne: "[[''1'', ''ann''], [''2'', ''bob'']] \<noteq> ([] :: Row list)" by simp
  note t = ToVerticalView_first_row_only [OF ne,
      of "[\<lparr>Title = ''ID'', Width = 20\<rparr>, \<lparr>Title = ''NAME'', Width = 20\<rparr>, \<lparr>Title = ''AGE'', Width = 20\<rparr>]"]
  have a: "ToVerticalView [[''1'', ''ann''], [''2'', ''bob'']]
       [\<lparr>Title = ''ID'', Width = 20\<rparr>, \<lparr>Title = ''NAME'', Width = 20\<rparr>, \<lparr>Title = ''AGE'', Width = 20\<rparr>]
     = ([[''ID'', ''1''], [''NAME'', ''ann''], [''AGE'', []]],
        [\<lparr>Title = ''column'', Width = 30\<rparr>, \<lparr>Title = ''val'', Width = 50\<rparr>])"
    using t [THEN conjunct1] by simp
  have b: "ToVerticalView [[''1'', ''ann''], [''9'', ''zed''], [''7'', ''kim'']]
       [\<lparr>Title = ''ID'', Width = 20\<rparr>, \<lparr>Title = ''NAME'', Width = 20\<rparr>, \<lparr>Title = ''AGE'', Width = 20\<rparr>]
     = ToVerticalView [[''1'', ''ann''], [''2'', ''bob'']]
       [\<lparr>Title = ''ID'', Width = 20\<rparr>, \<lparr>Title = ''NAME'', Width = 20\<rparr>, \<lparr>Title = ''AGE'', Width = 20\<rparr>]"
    using t [THEN conjunct2, THEN spec, of "[[''9'', ''zed''], [''7'', ''kim'']]"] by simp
  from ne a b show ?thesis by blast
qed

section \<open>The join of the cells of a row\<close>

lemma takeWhile_sep:
  assumes "s \<notin> set x"
  shows "takeWhile (\<lambda>c. c \<noteq> s) (x @ s # a) = x"
  using assms by (induction x) auto

lemma append_sep_eq:
  assumes "s \<notin> set x" "s \<notin> set y" "x @ s # a = y @ s # b"
  shows "x = y \<and> a = b"
proof -
  have "takeWhile (\<lambda>c. c \<noteq> s) (x @ s # a) = takeWhile (\<lambda>c. c \<noteq> s) (y @ s # b)"
    using assms(3) by simp
  then have "x = y" using assms(1,2) by (simp add: takeWhile_sep)
  with assms(3) show ?thesis by simp
qed

lemma Join_Cons: "xs \<noteq> [] \<Longrightarrow> Join (x # xs) sep = x @ sep @ Join xs sep"
  by (cases xs) simp_all

text \<open>
  Claim C5, as amended.  The cells are joined with the separator \<open>|\<close>, which a cell may
  contain.  On rows whose cells do not contain it the join is injective: two such rows
  with the same number of cells and the same joined string are the same row.
\<close>

theorem Join_injective_without_separator:
  assumes "\<forall>c \<in> set r1. CHR ''|'' \<notin> set c"
      and "\<forall>c \<in> set r2. CHR ''|'' \<notin> set c"
      and "length r1 = length r2"
      and "Join r1 ''|'' = Join r2 ''|''"
  shows "r1 = r2"
  using assms(3,1,2,4)
proof (induction r1 r2 rule: list_induct2)
  case Nil
  then show ?case by simp
next
  case (Cons x xs y ys)
  show ?case
  proof (cases xs)
    case Nil
    with \<open>length xs = length ys\<close> have "ys = []" by simp
    with Nil Cons.prems(3) show ?thesis by simp
  next
    case (Cons x' xs')
    then have xs: "xs \<noteq> []" by simp
    with \<open>length xs = length ys\<close> have ys: "ys \<noteq> []" by auto
    from Cons.prems(3) xs ys
    have e: "x @ CHR ''|'' # Join xs ''|'' = y @ CHR ''|'' # Join ys ''|''"
      by (simp add: Join_Cons)
    have nx: "CHR ''|'' \<notin> set x" and ny: "CHR ''|'' \<notin> set y"
      using Cons.prems(1,2) by simp_all
    have "x = y \<and> Join xs ''|'' = Join ys ''|''"
      by (rule append_sep_eq [OF nx ny e])
    then have xy: "x = y" and j: "Join xs ''|'' = Join ys ''|''" by simp_all
    have "\<forall>c \<in> set xs. CHR ''|'' \<notin> set c" "\<forall>c \<in> set ys. CHR ''|'' \<notin> set c"
      using Cons.prems(1,2) by simp_all
    then have "xs = ys" using Cons.IH j by blast
    with xy show ?thesis by simp
  qed
qed

theorem Join_injective_without_separator_witness:
  "list_all (\<lambda>c. CHR ''|'' \<notin> set c) [''a'', ''b'']
   \<and> list_all (\<lambda>c. CHR ''|'' \<notin> set c) [''a'', ''c'']
   \<and> length [''a'', ''b''] = length [''a'', ''c'']
   \<and> Join [''a'', ''b''] ''|'' = ''a|b''
   \<and> Join [''a'', ''b''] ''|'' \<noteq> Join [''a'', ''c''] ''|''"
proof -
  have h: "\<forall>c \<in> set [''a'', ''b'']. CHR ''|'' \<notin> set c" by simp
  have h': "\<forall>c \<in> set [''a'', ''c'']. CHR ''|'' \<notin> set c" by simp
  have l: "length [''a'', ''b''] = length [''a'', ''c'']" by simp
  have "Join [''a'', ''b''] ''|'' = Join [''a'', ''c''] ''|'' \<Longrightarrow> [''a'', ''b''] = [''a'', ''c'']"
    using Join_injective_without_separator [OF h h' l] by blast
  then have "Join [''a'', ''b''] ''|'' \<noteq> Join [''a'', ''c''] ''|''" by fastforce
  then show ?thesis by simp
qed

text \<open>
  The claim as stated fails: a cell that \<open>GetContent\<close> renders from a string of the
  database may contain the separator, and then two different rows have the same joined
  string.
\<close>

theorem Join_not_injective_counterexample:
  "[''a|b''] \<noteq> [''a'', ''b''] \<and> Join [''a|b''] ''|'' = Join [''a'', ''b''] ''|''
   \<and> renderRow 1 [VString ''a|b''] = [''a|b'']"
  by (simp add: renderRow_def renderVal_def)

section \<open>Session tokens\<close>

lemma lower_digits:
  "map sqlLowerChar ''0123456789ABCDEF'' = ''0123456789abcdef''"
  by (simp add: sqlLowerChar_def char_of_def bit_Suc_0_iff)

lemma lower_digit:
  assumes "n < 16"
  shows "sqlLowerChar (''0123456789ABCDEF'' ! n) = ''0123456789abcdef'' ! n"
proof -
  have "map sqlLowerChar ''0123456789ABCDEF'' ! n = sqlLowerChar (''0123456789ABCDEF'' ! n)"
    using assms by (intro nth_map) simp
  then show ?thesis by (simp only: lower_digits)
qed

lemma sqlLower_sqlHexByte: "sqlLower (sqlHexByte b) = hexByte b"
proof -
  have "unat b < 256" using unsigned_less [of b] by simp
  then have "unat b div 16 < 16" by simp
  moreover have "unat b mod 16 < 16" by simp
  ultimately show ?thesis
    by (simp only: sqlLower_def sqlHexByte_def hexByte_def list.map lower_digit)
qed

lemma sqlLower_sqlHex: "sqlLower (sqlHex bs) = hexString bs"
proof (induction bs)
  case Nil
  then show ?case by (simp add: sqlLower_def sqlHex_def hexString_def)
next
  case (Cons b bs)
  have "sqlLower (sqlHex (b # bs)) = sqlLower (sqlHexByte b) @ sqlLower (sqlHex bs)"
    by (simp add: sqlLower_def sqlHex_def)
  with Cons show ?case by (simp add: sqlLower_sqlHexByte hexString_def)
qed

lemma length_hexString: "length (hexString bs) = 2 * length bs"
  by (induction bs) (simp_all add: hexString_def hexByte_def)

lemma isLowerHex_digit: "n < 16 \<Longrightarrow> isLowerHex (''0123456789abcdef'' ! n)"
  unfolding isLowerHex_def by (rule nth_mem) simp

lemma isLowerHex_hexByte: "list_all isLowerHex (hexByte b)"
proof -
  have "unat b < 256" using unsigned_less [of b] by simp
  then have "unat b div 16 < 16" by simp
  moreover have "unat b mod 16 < 16" by simp
  ultimately show ?thesis by (simp add: hexByte_def isLowerHex_digit)
qed

lemma isLowerHex_hexString: "list_all isLowerHex (hexString bs)"
  by (induction bs) (simp_all add: hexString_def isLowerHex_hexByte)

lemma list_all_take: "list_all P xs \<Longrightarrow> list_all P (take n xs)"
  by (simp add: list_all_iff) (meson in_set_takeD)

lemma list_all_drop: "list_all P xs \<Longrightarrow> list_all P (drop n xs)"
  by (simp add: list_all_iff) (meson in_set_dropD)

lemma generateUUID_hex:
  "generateUUID rnd =
     Inr (take 8 (hexString (map rnd [0..<16])) @ ''-'' @
          take 4 (drop 8 (hexString (map rnd [0..<16]))) @ ''-'' @
          take 4 (drop 12 (hexString (map rnd [0..<16]))) @ ''-'' @
          take 4 (drop 16 (hexString (map rnd [0..<16]))) @ ''-'' @
          take 12 (drop 20 (hexString (map rnd [0..<16]))))"
  by (simp add: generateUUID_def randomblob_def sqlLower_sqlHex length_hexString slice_def Let_def)

lemma canonical_format:
  assumes "length h = 32" "list_all isLowerHex h"
  shows "canonicalUUID (take 8 h @ ''-'' @ take 4 (drop 8 h) @ ''-'' @ take 4 (drop 12 h) @ ''-'' @
           take 4 (drop 16 h) @ ''-'' @ take 12 (drop 20 h))"
  using assms
  by (simp add: canonicalUUID_def nth_append list_all_take list_all_drop min_def)


text \<open>
  Claim C6.  When the store has the instance table, \<open>SaveInstance\<close> with an empty token
  succeeds, and the token it returns and stores is in the canonical grouped form: the 32
  lower-case hexadecimal digits of the 16 random bytes, in groups of 8, 4, 4, 4 and 12
  separated by dashes.
\<close>

theorem SaveInstance_generates_canonical_token:
  assumes "tbl_instance w = Some rs"
  shows "\<exists>uid. SaveInstance rnd w idQuery hash [] filter_text =
             Inr (uid, w\<lparr>tbl_instance := Some (replaceInstance rs
                    \<lparr>ins_uid = uid, ins_id_query = idQuery, ins_hash = hash,
                      ins_filter = filter_text\<rparr>)\<rparr>)
           \<and> canonicalUUID uid
           \<and> uid = (let h = hexString (map rnd [0..<16]) in
                     take 8 h @ ''-'' @ take 4 (drop 8 h) @ ''-'' @ take 4 (drop 12 h) @ ''-'' @
                     take 4 (drop 16 h) @ ''-'' @ take 12 (drop 20 h))"
proof -
  let ?h = "hexString (map rnd [0..<16])"
  let ?uid = "take 8 ?h @ ''-'' @ take 4 (drop 8 ?h) @ ''-'' @ take 4 (drop 12 ?h) @ ''-'' @
              take 4 (drop 16 ?h) @ ''-'' @ take 12 (drop 20 ?h)"
  have g: "generateUUID rnd = Inr ?uid" by (rule generateUUID_hex)
  have "length ?h = 32" by (simp add: length_hexString)
  then have c: "canonicalUUID ?uid"
    using isLowerHex_hexString [of "map rnd [0..<16]"] by (rule canonical_format)
  have "SaveInstance rnd w idQuery hash [] filter_text =
          Inr (?uid, w\<lparr>tbl_instance := Some (replaceInstance rs
                 \<lparr>ins_uid = ?uid, ins_id_query = idQuery, ins_hash = hash,
                   ins_filter = filter_text\<rparr>)\<rparr>)"
    using assms by (simp add: SaveInstance_def g)
  with c show ?thesis unfolding Let_def by blast
qed

lemma example_token:
  "hexString (map (\<lambda>i. of_nat (16 * i + 10)) [0..<16]) = ''0a1a2a3a4a5a6a7a8a9aaabacadaeafa''"
  by code_simp

theorem SaveInstance_generates_canonical_token_witness:
  "tbl_instance exampleWorld = Some []
   \<and> (case SaveInstance (\<lambda>i. of_nat (16 * i + 10)) exampleWorld 1 ''h'' [] ''id = 5'' of
        Inl err \<Rightarrow> False
      | Inr (uid, w') \<Rightarrow>
          uid = ''0a1a2a3a-4a5a-6a7a-8a9a-aabacadaeafa'' \<and> canonicalUUID uid)"
proof -
  have t: "tbl_instance exampleWorld = Some []" by (simp add: exampleWorld_def)
  from SaveInstance_generates_canonical_token [OF t, of "\<lambda>i. of_nat (16 * i + 10)" 1 "''h''" "''id = 5''"]
  obtain uid where
    s: "SaveInstance (\<lambda>i. of_nat (16 * i + 10)) exampleWorld 1 ''h'' [] ''id = 5'' =
          Inr (uid, exampleWorld\<lparr>tbl_instance := Some (replaceInstance []
                 \<lparr>ins_uid = uid, ins_id_query = 1, ins_hash = ''h'', ins_filter = ''id = 5''\<rparr>)\<rparr>)"
    and c: "canonicalUUID uid"
    and u: "uid = (let h = hexString (map (\<lambda>i. of_nat (16 * i + 10)) [0..<16]) in
                     take 8 h @ ''-'' @ take 4 (drop 8 h) @ ''-'' @ take 4 (drop 12 h) @ ''-'' @
                     take 4 (drop 16 h) @ ''-'' @ take 12 (drop 20 h))"
    by blast
  from u have "uid = ''0a1a2a3a-4a5a-6a7a-8a9a-aabacadaeafa''"
    unfolding example_token Let_def by simp
  with s c t show ?thesis by simp
qed

section \<open>Saving an instance twice\<close>

lemma filter_replaceInstance_key:
  "filter (\<lambda>r. ins_uid r = ins_uid n \<and> ins_id_query r = ins_id_query n) (replaceInstance rs n) = [n]"
  by (simp add: replaceInstance_def filter_empty_conv)

lemma find_single:
  assumes "filter P xs = [x]"
  shows "find P xs = Some x"
  using assms
proof (induction xs)
  case Nil
  then show ?case by simp
next
  case (Cons a xs)
  show ?case
  proof (cases "P a")
    case True
    with Cons.prems show ?thesis by simp
  next
    case False
    with Cons show ?thesis by simp
  qed
qed

lemma SaveInstance_provided:
  assumes "providedUID \<noteq> []"
      and "SaveInstance rnd w idQuery hash providedUID filter_text = Inr (uid, w')"
  shows "uid = providedUID \<and>
         (\<exists>rs. tbl_instance w = Some rs \<and>
               w' = w\<lparr>tbl_instance := Some (replaceInstance rs
                      \<lparr>ins_uid = providedUID, ins_id_query = idQuery, ins_hash = hash,
                        ins_filter = filter_text\<rparr>)\<rparr>)"
  using assms by (auto simp: SaveInstance_def split: option.splits)

text \<open>
  Claim C3.  Two successful calls of \<open>SaveInstance\<close> with the same non-empty token and
  the same query id, with any digests and filter texts, return that token and leave
  exactly one row of that token and query id in the instance table: the row of the digest
  and the filter text of the second call, which is what the two lookups then return.
\<close>

theorem SaveInstance_twice_one_row:
  assumes "providedUID \<noteq> []"
      and "SaveInstance rnd1 w idQuery hash1 providedUID filter1 = Inr (uid1, w1)"
      and "SaveInstance rnd2 w1 idQuery hash2 providedUID filter2 = Inr (uid2, w2)"
  shows "uid1 = providedUID \<and> uid2 = providedUID
         \<and> (\<exists>rs. tbl_instance w2 = Some rs
                \<and> filter (\<lambda>r. ins_uid r = providedUID \<and> ins_id_query r = idQuery) rs =
                    [\<lparr>ins_uid = providedUID, ins_id_query = idQuery, ins_hash = hash2,
                      ins_filter = filter2\<rparr>])
         \<and> GetHashByUID w2 providedUID idQuery = Inr hash2
         \<and> GetFilterByUID w2 providedUID idQuery = Inr filter2"
proof -
  let ?n = "\<lparr>ins_uid = providedUID, ins_id_query = idQuery, ins_hash = hash2,
             ins_filter = filter2\<rparr>"
  from SaveInstance_provided [OF assms(1,2)] have u1: "uid1 = providedUID" by simp
  from SaveInstance_provided [OF assms(1,3)] obtain rs1 where
    u2: "uid2 = providedUID" and "tbl_instance w1 = Some rs1"
    and w2: "w2 = w1\<lparr>tbl_instance := Some (replaceInstance rs1 ?n)\<rparr>"
    by blast
  have t: "tbl_instance w2 = Some (replaceInstance rs1 ?n)" using w2 by simp
  have f: "filter (\<lambda>r. ins_uid r = providedUID \<and> ins_id_query r = idQuery)
             (replaceInstance rs1 ?n) = [?n]"
    using filter_replaceInstance_key [of ?n rs1] by simp
  then have fi: "find (\<lambda>r. ins_uid r = providedUID \<and> ins_id_query r = idQuery)
             (replaceInstance rs1 ?n) = Some ?n"
    by (rule find_single)
  have "GetHashByUID w2 providedUID idQuery = Inr hash2"
    by (simp add: GetHashByUID_def t fi)
  moreover have "GetFilterByUID w2 providedUID idQuery = Inr filter2"
    by (simp add: GetFilterByUID_def t fi)
  ultimately show ?thesis using u1 u2 t f by blast
qed

theorem SaveInstance_twice_one_row_witness:
  "''u1'' \<noteq> []
   \<and> (\<exists>w1 w2.
        SaveInstance (\<lambda>i. 0) exampleWorld 1 ''aa'' ''u1'' ''id = 5'' = Inr (''u1'', w1)
      \<and> SaveInstance (\<lambda>i. 0) w1 1 ''bb'' ''u1'' ''id = 6'' = Inr (''u1'', w2)
      \<and> tbl_instance w2 =
          Some [\<lparr>ins_uid = ''u1'', ins_id_query = 1, ins_hash = ''bb'', ins_filter = ''id = 6''\<rparr>]
      \<and> GetHashByUID w2 ''u1'' 1 = Inr ''bb''
      \<and> GetFilterByUID w2 ''u1'' 1 = Inr ''id = 6'')"
proof -
  define w1 where "w1 = exampleWorld\<lparr>tbl_instance := Some
      [\<lparr>ins_uid = ''u1'', ins_id_query = 1, ins_hash = ''aa'', ins_filter = ''id = 5''\<rparr>]\<rparr>"
  define w2 where "w2 = exampleWorld\<lparr>tbl_instance := Some
      [\<lparr>ins_uid = ''u1'', ins_id_query = 1, ins_hash = ''bb'', ins_filter = ''id = 6''\<rparr>]\<rparr>"
  have ne: "''u1'' \<noteq> []" by simp
  have s1: "SaveInstance (\<lambda>i. 0) exampleWorld 1 ''aa'' ''u1'' ''id = 5'' = Inr (''u1'', w1)"
    by (simp add: SaveInstance_def exampleWorld_def w1_def replaceInstance_def)
  have s2: "SaveInstance (\<lambda>i. 0) w1 1 ''bb'' ''u1'' ''id = 6'' = Inr (''u1'', w2)"
    by (simp add: SaveInstance_def exampleWorld_def w1_def w2_def replaceInstance_def)
  have t: "tbl_instance w2 =
          Some [\<lparr>ins_uid = ''u1'', ins_id_query = 1, ins_hash = ''bb'', ins_filter = ''id = 6''\<rparr>]"
    by (simp add: w2_def)
  from SaveInstance_twice_one_row [OF ne s1 s2]
  have "GetHashByUID w2 ''u1'' 1 = Inr ''bb''" and "GetFilterByUID w2 ''u1'' 1 = Inr ''id = 6''"
    by simp_all
  with ne s1 s2 t show ?thesis by blast
qed

section \<open>Absent and malformed display configurations\<close>

lemma find_distinct_name:
  assumes "distinct (map f xs)" "x \<in> set xs"
  shows "find (\<lambda>y. f y = f x) xs = Some x"
  using assms
proof (induction xs)
  case Nil
  then show ?case by simp
next
  case (Cons a xs)
  show ?case
  proof (cases "a = x")
    case True
    then show ?thesis by simp
  next
    case False
    with Cons.prems have "x \<in> set xs" by simp
    with Cons.prems have "f a \<noteq> f x" by auto
    with Cons \<open>x \<in> set xs\<close> show ?thesis by simp
  qed
qed

text \<open>
  Claim C7.  For a row of the queries table, whose names are unique, \<open>GetQueryConfig\<close>
  on the name of the row returns empty widths and aliases and the stored height, 10 when
  the height is NULL, when the configuration is NULL or the empty text; and it returns the
  error of \<open>json.Unmarshal\<close> when the configuration is a non-empty text that
  \<open>json.Unmarshal\<close> rejects.
\<close>

theorem GetQueryConfig_malformed_or_absent:
  assumes "tbl_queries w = Some qs"
      and "distinct (map qry_name qs)"
      and "q \<in> set qs"
  shows "(qry_config q = None \<or> qry_config q = Some [] \<longrightarrow>
            GetQueryConfig e w (qry_name q) =
              Inr (Map.empty, Map.empty, case qry_height q of None \<Rightarrow> 10 | Some h \<Rightarrow> h))
         \<and> (\<forall>configJSON err.
               qry_config q = Some configJSON \<and> configJSON \<noteq> [] \<and>
               Unmarshal e configJSON = Inl err \<longrightarrow>
               GetQueryConfig e w (qry_name q) = Inl err)"
proof -
  have "find (\<lambda>y. qry_name y = qry_name q) qs = Some q"
    using assms(2,3) by (rule find_distinct_name)
  then show ?thesis
    using assms(1) by (auto simp: GetQueryConfig_def Let_def)
qed


theorem GetQueryConfig_malformed_or_absent_witness:
  "GetQueryConfig exampleEnv exampleWorld ''plain'' = Inr (Map.empty, Map.empty, 7)
   \<and> GetQueryConfig exampleEnv exampleWorld ''blank'' = Inr (Map.empty, Map.empty, 10)
   \<and> GetQueryConfig exampleEnv exampleWorld ''broken'' = Inl (JsonError ''invalid character'')"
proof -
  let ?qs = "[queryAllUsers, queryPlain, queryBlank, queryBroken]"
  have t: "tbl_queries exampleWorld = Some ?qs" by (simp add: exampleWorld_def)
  have d: "distinct (map qry_name ?qs)"
    by (simp add: queryAllUsers_def queryPlain_def queryBlank_def queryBroken_def)
  have p: "queryPlain \<in> set ?qs" and b: "queryBlank \<in> set ?qs" and k: "queryBroken \<in> set ?qs"
    by simp_all
  have u: "Unmarshal exampleEnv ''{bad'' = Inl (JsonError ''invalid character'')"
    by (simp add: exampleEnv_def exampleUnmarshal_def)
  have 1: "GetQueryConfig exampleEnv exampleWorld ''plain'' = Inr (Map.empty, Map.empty, 7)"
    using GetQueryConfig_malformed_or_absent [OF t d p, of exampleEnv, THEN conjunct1]
    by (simp add: queryPlain_def)
  have 2: "GetQueryConfig exampleEnv exampleWorld ''blank'' = Inr (Map.empty, Map.empty, 10)"
    using GetQueryConfig_malformed_or_absent [OF t d b, of exampleEnv, THEN conjunct1]
    by (simp add: queryBlank_def)
  have 3: "GetQueryConfig exampleEnv exampleWorld ''broken'' = Inl (JsonError ''invalid character'')"
    using GetQueryConfig_malformed_or_absent [OF t d k, of exampleEnv, THEN conjunct2, THEN spec,
        THEN spec, of "''{bad''" "JsonError ''invalid character''"] u
    by (simp add: queryBroken_def)
  from 1 2 3 show ?thesis by blast
qed

section \<open>What a row confirmation writes\<close>

lemma aliasedCells_Nil: "aliasedCells e idItem uid row aliases i [] = []"
  by (simp add: aliasedCells_def)

lemma aliasedCells_Cons:
  "aliasedCells e idItem uid row aliases i (c # cs) =
     (if i < length row then
        (case aliases (ToUpper e (Title c)) of
           Some alias \<Rightarrow>
             [\<lparr>cfg_id_item = idItem, cfg_uid = uid, cfg_var = alias, cfg_val = row ! i\<rparr>]
         | None \<Rightarrow> [])
      else []) @ aliasedCells e idItem uid row aliases (Suc i) cs"
  by (simp add: aliasedCells_def)

lemma saveColumns_config:
  assumes "tbl_config w = Some cfg"
  shows "saveColumns e idItem uid row aliases i cs w =
           (None, w\<lparr>tbl_config :=
              Some (foldl replaceConfig cfg (aliasedCells e idItem uid row aliases i cs))\<rparr>)"
  using assms
proof (induction cs arbitrary: i w cfg)
  case Nil
  then show ?case by (simp add: aliasedCells_Nil)
next
  case (Cons c cs)
  show ?case
  proof (cases "i < length row")
    case False
    with Cons show ?thesis by (simp add: aliasedCells_Cons)
  next
    case True
    show ?thesis
    proof (cases "aliases (ToUpper e (Title c))")
      case None
      with True Cons show ?thesis by (simp add: aliasedCells_Cons)
    next
      case (Some al)
      let ?n = "\<lparr>cfg_id_item = idItem, cfg_uid = uid, cfg_var = al, cfg_val = row ! i\<rparr>"
      let ?w = "w\<lparr>tbl_config := Some (replaceConfig cfg ?n)\<rparr>"
      have x: "execReplaceConfig w ?n = Inr ?w"
        using Cons.prems by (simp add: execReplaceConfig_def)
      have t: "tbl_config ?w = Some (replaceConfig cfg ?n)" by simp
      from Cons.IH [OF t, of "Suc i"] True Some x
      show ?thesis by (simp add: aliasedCells_Cons)
    qed
  qed
qed

lemma set_foldl_replaceConfig:
  "set (foldl replaceConfig cfg ws) \<subseteq> set cfg \<union> set ws"
proof (induction ws arbitrary: cfg)
  case Nil
  then show ?case by simp
next
  case (Cons n ws)
  have "set (replaceConfig cfg n) \<subseteq> set cfg \<union> {n}"
    by (auto simp: replaceConfig_def)
  with Cons [of "replaceConfig cfg n"] show ?case by auto
qed

lemma aliasedCells_origin:
  assumes "r \<in> set (aliasedCells e idItem uid row aliases i0 cols)"
  shows "\<exists>i < length cols. i0 + i < length row \<and>
            aliases (ToUpper e (Title (cols ! i))) = Some (cfg_var r) \<and>
            cfg_val r = row ! (i0 + i) \<and> cfg_id_item r = idItem \<and> cfg_uid r = uid"
  using assms
proof (induction cols arbitrary: i0)
  case Nil
  then show ?case by (simp add: aliasedCells_Nil)
next
  case (Cons c cs)
  let ?hd = "if i0 < length row then
        (case aliases (ToUpper e (Title c)) of
           Some alias \<Rightarrow>
             [\<lparr>cfg_id_item = idItem, cfg_uid = uid, cfg_var = alias, cfg_val = row ! i0\<rparr>]
         | None \<Rightarrow> [])
      else []"
  have "set (aliasedCells e idItem uid row aliases i0 (c # cs)) =
          set ?hd \<union> set (aliasedCells e idItem uid row aliases (Suc i0) cs)"
    by (simp only: aliasedCells_Cons set_append)
  with Cons.prems have "r \<in> set ?hd \<or> r \<in> set (aliasedCells e idItem uid row aliases (Suc i0) cs)"
    by blast
  then show ?case
  proof
    assume "r \<in> set ?hd"
    then have "i0 < length row \<and> aliases (ToUpper e (Title c)) = Some (cfg_var r) \<and>
             cfg_val r = row ! i0 \<and> cfg_id_item r = idItem \<and> cfg_uid r = uid"
      by (cases "i0 < length row"; cases "aliases (ToUpper e (Title c))") simp_all
    then have "0 < length (c # cs) \<and> i0 + 0 < length row \<and>
            aliases (ToUpper e (Title ((c # cs) ! 0))) = Some (cfg_var r) \<and>
            cfg_val r = row ! (i0 + 0) \<and> cfg_id_item r = idItem \<and> cfg_uid r = uid"
      by simp
    then show ?thesis by blast
  next
    assume tail: "r \<in> set (aliasedCells e idItem uid row aliases (Suc i0) cs)"
    from Cons.IH [OF tail] obtain i where "i < length cs" "Suc i0 + i < length row"
      "aliases (ToUpper e (Title (cs ! i))) = Some (cfg_var r)"
      "cfg_val r = row ! (Suc i0 + i)" "cfg_id_item r = idItem" "cfg_uid r = uid"
      by blast
    then have "Suc i < length (c # cs) \<and> i0 + Suc i < length row \<and>
            aliases (ToUpper e (Title ((c # cs) ! Suc i))) = Some (cfg_var r) \<and>
            cfg_val r = row ! (i0 + Suc i) \<and> cfg_id_item r = idItem \<and> cfg_uid r = uid"
      by simp
    then show ?thesis by blast
  qed
qed

lemma find_append:
  "find P (xs @ ys) = (case find P xs of None \<Rightarrow> find P ys | Some x \<Rightarrow> Some x)"
  by (induction xs) simp_all

lemma SaveConfigFromTable_config:
  assumes "tbl_items w = Some its" "tbl_config w = Some cfg"
  shows "\<exists>idItem w1. GetItemID w1 itemName = Inr idItem
           \<and> tbl_instance w1 = tbl_instance w \<and> executed w1 = executed w
           \<and> tbl_queries w1 = tbl_queries w \<and> tbl_items w1 \<noteq> None
           \<and> SaveConfigFromTable e w itemName idDB uid row cols aliases =
               (None, w1\<lparr>tbl_config :=
                  Some (foldl replaceConfig cfg (aliasedCells e idItem uid row aliases 0 cols))\<rparr>)"
proof (cases "length (filter (\<lambda>r. item_name r = itemName) its) = 0")
  case True
  let ?new = "\<lparr>item_id = foldr max (map item_id its) 0 + 1, item_id_db = idDB,
                item_name = itemName\<rparr>"
  let ?w1 = "w\<lparr>tbl_items := Some (its @ [?new])\<rparr>"
  from True have nf: "find (\<lambda>r. item_name r = itemName) its = None"
    by (simp add: find_None_iff filter_empty_conv)
  have i: "InsertItemIfNotExists w itemName idDB = (None, ?w1)"
    using assms(1) True by (simp add: InsertItemIfNotExists_def)
  have "find (\<lambda>r. item_name r = itemName) (its @ [?new]) = Some ?new"
    using nf by (simp add: find_append)
  then have g: "GetItemID ?w1 itemName = Inr (item_id ?new)"
    by (simp add: GetItemID_def)
  have c: "tbl_config ?w1 = Some cfg" using assms(2) by simp
  have "SaveConfigFromTable e w itemName idDB uid row cols aliases =
          (None, ?w1\<lparr>tbl_config :=
              Some (foldl replaceConfig cfg (aliasedCells e (item_id ?new) uid row aliases 0 cols))\<rparr>)"
    using i g by (simp add: SaveConfigFromTable_def saveColumns_config [OF c])
  with g show ?thesis by (intro exI [of _ "item_id ?new"] exI [of _ ?w1]) simp
next
  case False
  then obtain r where f: "find (\<lambda>r. item_name r = itemName) its = Some r"
    by (cases "find (\<lambda>r. item_name r = itemName) its")
       (auto simp: find_None_iff filter_empty_conv)
  have i: "InsertItemIfNotExists w itemName idDB = (None, w)"
    using assms(1) False by (simp add: InsertItemIfNotExists_def)
  have g: "GetItemID w itemName = Inr (item_id r)"
    using assms(1) f by (simp add: GetItemID_def)
  have "SaveConfigFromTable e w itemName idDB uid row cols aliases =
          (None, w\<lparr>tbl_config :=
              Some (foldl replaceConfig cfg (aliasedCells e (item_id r) uid row aliases 0 cols))\<rparr>)"
    using i g by (simp add: SaveConfigFromTable_def saveColumns_config [OF assms(2)])
  with g assms(1) show ?thesis by (intro exI [of _ "item_id r"] exI [of _ w]) simp
qed

lemma Update_enter_filter_err:
  assumes "ti_focus (m_textInput m)"
      and "FilterContent e w m (ti_value (m_textInput m)) = (Inl err, w1)"
  shows "Update e rnd w m (KeyMsg ''enter'') =
           ((m, Printf (CHR 0x0A # ''Error filtering: %v'' @ [CHR 0x0A]) err), w1)"
  using assms by (simp add: Update_def Batch_def Let_def)

lemma Update_enter_filter_ok:
  assumes "ti_focus (m_textInput m)"
      and "FilterContent e w m (ti_value (m_textInput m)) = (Inr (rows, cols), w1)"
  shows "Update e rnd w m (KeyMsg ''enter'') =
           ((m\<lparr>m_table := SetColumns (SetRows (m_table m) rows) cols\<rparr>, NoCmd),
            (case SaveInstance rnd w1 (m_idQuery m)
                    (hexString (Sum256 e (Join (SelectedRow (SetColumns (SetRows (m_table m) rows) cols)) ''|'')))
                    (m_uid m) (ti_value (m_textInput m)) of
               Inl err \<Rightarrow> w1
             | Inr (uid, w') \<Rightarrow> w'))"
  using assms by (simp add: Update_def Batch_def Let_def)

lemma Update_enter_table_err:
  assumes "\<not> ti_focus (m_textInput m)"
      and "SaveConfigFromTable e w (m_itemName m) (m_idDB m) (m_uid m) (SelectedRow (m_table m))
             (t_cols (m_table m)) (m_aliases m) = (Some err, w1)"
  shows "Update e rnd w m (KeyMsg ''enter'') =
           ((m, Printf (CHR 0x0A # ''Error saving to config: %v'' @ [CHR 0x0A]) err), w1)"
  using assms by (simp add: Update_def Batch_def Let_def)

lemma Update_enter_table_ok:
  assumes "\<not> ti_focus (m_textInput m)"
      and "SaveConfigFromTable e w (m_itemName m) (m_idDB m) (m_uid m) (SelectedRow (m_table m))
             (t_cols (m_table m)) (m_aliases m) = (None, w1)"
  shows "Update e rnd w m (KeyMsg ''enter'') =
           ((m, NoCmd),
            (case SaveInstance rnd w1 (m_idQuery m)
                    (hexString (Sum256 e (Join (SelectedRow (m_table m)) ''|'')))
                    (m_uid m) (ti_value (m_textInput m)) of
               Inl err \<Rightarrow> w1
             | Inr (uid, w') \<Rightarrow> w'))"
  using assms by (simp add: Update_def Batch_def Let_def)

lemma SaveInstance_keeps:
  "tbl_config (case SaveInstance rnd w q h u f of Inl err \<Rightarrow> w | Inr (uid, w') \<Rightarrow> w') = tbl_config w"
  "tbl_items (case SaveInstance rnd w q h u f of Inl err \<Rightarrow> w | Inr (uid, w') \<Rightarrow> w') = tbl_items w"
  "tbl_queries (case SaveInstance rnd w q h u f of Inl err \<Rightarrow> w | Inr (uid, w') \<Rightarrow> w') = tbl_queries w"
  "executed (case SaveInstance rnd w q h u f of Inl err \<Rightarrow> w | Inr (uid, w') \<Rightarrow> w') = executed w"
  by (auto simp: SaveInstance_def split: sum.splits option.splits)

lemma GetItemID_items: "tbl_items w' = tbl_items w \<Longrightarrow> GetItemID w' n = GetItemID w n"
  by (simp add: GetItemID_def)

text \<open>
  Claim C10.  When the enter key is pressed while the text input is not focused, and the
  store has the items and the config tables, \<open>Update\<close> succeeds and the config table
  becomes the old one after \<open>INSERT OR REPLACE\<close> of the rows of \<open>aliasedCells\<close>, in their
  order: one row for each column of the table that has a cell in the selected row and
  whose upper-cased title is a key of the aliases of the model, stored under the alias,
  with the cell as value.  So every row of the new table is a row of the old one or
  comes from such a column; a column without an alias writes nothing, and no error is
  raised for it.
\<close>

theorem Update_enter_persists_aliased_columns:
  assumes "\<not> ti_focus (m_textInput m)"
      and "tbl_items w = Some its"
      and "tbl_config w = Some cfg"
  shows "\<exists>idItem w' cfg'.
           Update e rnd w m (KeyMsg ''enter'') = ((m, NoCmd), w')
         \<and> GetItemID w' (m_itemName m) = Inr idItem
         \<and> tbl_config w' = Some cfg'
         \<and> cfg' = foldl replaceConfig cfg
                    (aliasedCells e idItem (m_uid m) (SelectedRow (m_table m)) (m_aliases m) 0
                       (t_cols (m_table m)))
         \<and> (\<forall>r \<in> set cfg'. r \<in> set cfg \<or>
               (\<exists>i < length (t_cols (m_table m)).
                  i < length (SelectedRow (m_table m)) \<and>
                  m_aliases m (ToUpper e (Title (t_cols (m_table m) ! i))) = Some (cfg_var r) \<and>
                  cfg_val r = SelectedRow (m_table m) ! i \<and>
                  cfg_id_item r = idItem \<and> cfg_uid r = m_uid m))"
proof -
  let ?row = "SelectedRow (m_table m)"
  let ?cols = "t_cols (m_table m)"
  from SaveConfigFromTable_config [OF assms(2,3), of "m_itemName m" e "m_idDB m" "m_uid m" ?row
      ?cols "m_aliases m"]
  obtain idItem w1 where g: "GetItemID w1 (m_itemName m) = Inr idItem"
    and s: "SaveConfigFromTable e w (m_itemName m) (m_idDB m) (m_uid m) ?row ?cols (m_aliases m) =
              (None, w1\<lparr>tbl_config := Some (foldl replaceConfig cfg
                 (aliasedCells e idItem (m_uid m) ?row (m_aliases m) 0 ?cols))\<rparr>)"
    by blast
  let ?cells = "aliasedCells e idItem (m_uid m) ?row (m_aliases m) 0 ?cols"
  let ?cfg' = "foldl replaceConfig cfg ?cells"
  let ?w1 = "w1\<lparr>tbl_config := Some ?cfg'\<rparr>"
  let ?w' = "case SaveInstance rnd ?w1 (m_idQuery m)
                    (hexString (Sum256 e (Join ?row ''|'')))
                    (m_uid m) (ti_value (m_textInput m)) of
               Inl err \<Rightarrow> ?w1
             | Inr (uid, w') \<Rightarrow> w'"
  have u: "Update e rnd w m (KeyMsg ''enter'') = ((m, NoCmd), ?w')"
    by (rule Update_enter_table_ok [OF assms(1) s])
  have c: "tbl_config ?w' = Some ?cfg'" by (simp add: SaveInstance_keeps)
  have "tbl_items ?w' = tbl_items w1" by (simp add: SaveInstance_keeps)
  then have i: "GetItemID ?w' (m_itemName m) = Inr idItem"
    using g by (simp add: GetItemID_def)
  have o: "\<forall>r \<in> set ?cfg'. r \<in> set cfg \<or>
               (\<exists>i < length ?cols. i < length ?row \<and>
                  m_aliases m (ToUpper e (Title (?cols ! i))) = Some (cfg_var r) \<and>
                  cfg_val r = ?row ! i \<and> cfg_id_item r = idItem \<and> cfg_uid r = m_uid m)"
  proof
    fix r assume "r \<in> set ?cfg'"
    then have "r \<in> set cfg \<or> r \<in> set ?cells"
      using set_foldl_replaceConfig [of cfg ?cells] by blast
    then show "r \<in> set cfg \<or>
               (\<exists>i < length ?cols. i < length ?row \<and>
                  m_aliases m (ToUpper e (Title (?cols ! i))) = Some (cfg_var r) \<and>
                  cfg_val r = ?row ! i \<and> cfg_id_item r = idItem \<and> cfg_uid r = m_uid m)"
    proof
      assume "r \<in> set cfg" then show ?thesis by simp
    next
      assume "r \<in> set ?cells"
      from aliasedCells_origin [OF this] show ?thesis by simp
    qed
  qed
  from u i c o show ?thesis by blast
qed

text \<open>The facts that evaluate the examples.\<close>

lemmas example_eval = exampleModel_def exampleWorld_def exampleEnv_def exampleSum_def
  exampleQuery_def exampleUnmarshal_def queryAllUsers_def queryPlain_def queryBlank_def
  queryBroken_def asciiUpper_def asciiUpperChar_def char_of_def bit_Suc_0_iff

theorem Update_enter_persists_aliased_columns_witness:
  "\<not> ti_focus (m_textInput exampleModel)
   \<and> tbl_items exampleWorld = Some [\<lparr>item_id = 1, item_id_db = 1, item_name = ''users''\<rparr>]
   \<and> tbl_config exampleWorld = Some []
   \<and> fst (Update exampleEnv (\<lambda>i. 0) exampleWorld exampleModel (KeyMsg ''enter'')) =
        (exampleModel, NoCmd)
   \<and> tbl_config (snd (Update exampleEnv (\<lambda>i. 0) exampleWorld exampleModel (KeyMsg ''enter''))) =
        Some [\<lparr>cfg_id_item = 1, cfg_uid = ''u1'', cfg_var = ''N'', cfg_val = ''ann''\<rparr>]"
proof -
  have f: "\<not> ti_focus (m_textInput exampleModel)" by (simp add: exampleModel_def)
  have i: "tbl_items exampleWorld = Some [\<lparr>item_id = 1, item_id_db = 1, item_name = ''users''\<rparr>]"
    by (simp add: exampleWorld_def)
  have c: "tbl_config exampleWorld = Some []" by (simp add: exampleWorld_def)
  from Update_enter_persists_aliased_columns [OF f i c, of exampleEnv "\<lambda>i. 0"]
  obtain idItem w' cfg' where
    u: "Update exampleEnv (\<lambda>i. 0) exampleWorld exampleModel (KeyMsg ''enter'') =
          ((exampleModel, NoCmd), w')"
    and g: "GetItemID w' (m_itemName exampleModel) = Inr idItem"
    and t: "tbl_config w' = Some cfg'"
    and e: "cfg' = foldl replaceConfig []
                    (aliasedCells exampleEnv idItem (m_uid exampleModel)
                       (SelectedRow (m_table exampleModel)) (m_aliases exampleModel) 0
                       (t_cols (m_table exampleModel)))"
    by blast
  have "tbl_items w' = tbl_items exampleWorld"
  proof -
    have "tbl_items (snd (Update exampleEnv (\<lambda>i. 0) exampleWorld exampleModel (KeyMsg ''enter''))) =
            tbl_items exampleWorld"
      by (simp add: Update_def SaveConfigFromTable_def InsertItemIfNotExists_def GetItemID_def
          execReplaceConfig_def replaceConfig_def SaveInstance_def SelectedRow_def Batch_def
          Let_def example_eval)
    with u show ?thesis by simp
  qed
  with g have "idItem = 1" by (simp add: GetItemID_def exampleWorld_def exampleModel_def)
  with e have "cfg' = [\<lparr>cfg_id_item = 1, cfg_uid = ''u1'', cfg_var = ''N'', cfg_val = ''ann''\<rparr>]"
    by (simp add: aliasedCells_def enumerate_eq_zip replaceConfig_def SelectedRow_def example_eval
        upt_conv_Cons)
  with t u f i c show ?thesis by simp
qed

section \<open>A filter that fails\<close>

lemma FilterContent_world:
  "\<exists>q. snd (FilterContent e w m f) = w\<lparr>executed := executed w @ [q]\<rparr>"
proof -
  have "\<And>q. snd (GetContent e w q) = w\<lparr>executed := executed w @ [q]\<rparr>"
    by (simp add: GetContent_def Let_def split: sum.splits)
  then show ?thesis by (simp only: snd_FilterContent) blast
qed

text \<open>
  Claim C8.  When the enter key is pressed while the text input is focused and
  \<open>FilterContent\<close> fails on its text, \<open>Update\<close> returns the model unchanged, so the rows
  and the columns of its table are those before the key, together with the command that
  prints the error, which is not the quit command; the tables of the local store are
  unchanged.
\<close>

theorem Update_filter_error_keeps_table:
  assumes "ti_focus (m_textInput m)"
      and "fst (FilterContent e w m (ti_value (m_textInput m))) = Inl err"
  shows "fst (Update e rnd w m (KeyMsg ''enter'')) =
           (m, Printf (CHR 0x0A # ''Error filtering: %v'' @ [CHR 0x0A]) err)
         \<and> snd (fst (Update e rnd w m (KeyMsg ''enter''))) \<noteq> Quit
         \<and> t_rows (m_table (fst (fst (Update e rnd w m (KeyMsg ''enter''))))) = t_rows (m_table m)
         \<and> t_cols (m_table (fst (fst (Update e rnd w m (KeyMsg ''enter''))))) = t_cols (m_table m)
         \<and> tbl_instance (snd (Update e rnd w m (KeyMsg ''enter''))) = tbl_instance w
         \<and> tbl_config (snd (Update e rnd w m (KeyMsg ''enter''))) = tbl_config w
         \<and> tbl_items (snd (Update e rnd w m (KeyMsg ''enter''))) = tbl_items w"
proof -
  obtain q where s: "snd (FilterContent e w m (ti_value (m_textInput m))) =
      w\<lparr>executed := executed w @ [q]\<rparr>"
    using FilterContent_world by blast
  with assms(2) have "FilterContent e w m (ti_value (m_textInput m)) =
      (Inl err, w\<lparr>executed := executed w @ [q]\<rparr>)"
    by (simp add: prod_eq_iff)
  from Update_enter_filter_err [OF assms(1) this, of rnd]
  show ?thesis by simp
qed

theorem Update_filter_error_keeps_table_witness:
  "ti_focus (m_textInput (exampleModel\<lparr>m_textInput := \<lparr>ti_value = ''nme = 1'', ti_focus = True\<rparr>\<rparr>))
   \<and> fst (FilterContent exampleEnv exampleWorld
        (exampleModel\<lparr>m_textInput := \<lparr>ti_value = ''nme = 1'', ti_focus = True\<rparr>\<rparr>) ''nme = 1'') =
        Inl (BackendError ''syntax error'')
   \<and> fst (Update exampleEnv (\<lambda>i. 0) exampleWorld
        (exampleModel\<lparr>m_textInput := \<lparr>ti_value = ''nme = 1'', ti_focus = True\<rparr>\<rparr>) (KeyMsg ''enter'')) =
        (exampleModel\<lparr>m_textInput := \<lparr>ti_value = ''nme = 1'', ti_focus = True\<rparr>\<rparr>,
         Printf (CHR 0x0A # ''Error filtering: %v'' @ [CHR 0x0A]) (BackendError ''syntax error''))"
proof -
  let ?m = "exampleModel\<lparr>m_textInput := \<lparr>ti_value = ''nme = 1'', ti_focus = True\<rparr>\<rparr>"
  have f: "ti_focus (m_textInput ?m)" by simp
  have v: "ti_value (m_textInput ?m) = ''nme = 1''" by simp
  have t: "TrimSpace (TrimPrefix (TrimSpace ''nme = 1'') ''WHERE'') = ''nme = 1''"
    by (simp add: trim_eval)
  have e: "fst (FilterContent exampleEnv exampleWorld ?m ''nme = 1'') =
             Inl (BackendError ''syntax error'')"
    unfolding FilterContent_def Let_def t
    by (simp add: GetContent_def Let_def exampleEnv_def exampleQuery_def exampleModel_def
        split: prod.splits sum.splits)
  from e have e': "fst (FilterContent exampleEnv exampleWorld ?m (ti_value (m_textInput ?m))) =
             Inl (BackendError ''syntax error'')"
    by (simp only: v)
  from Update_filter_error_keeps_table [OF f e', of "\<lambda>i. 0", THEN conjunct1] f e
  show ?thesis by blast
qed

section \<open>The digest of a row\<close>

lemma findRowByHash_finds:
  assumes "r \<in> set rows"
  shows "\<exists>j < length rows.
           findRowByHash e (hexString (Sum256 e (Join r ''|''))) i rows = Some (i + j)
         \<and> hexString (Sum256 e (Join (rows ! j) ''|'')) = hexString (Sum256 e (Join r ''|''))"
  using assms
proof (induction rows arbitrary: i)
  case Nil
  then show ?case by simp
next
  case (Cons x xs)
  let ?d = "\<lambda>row. hexString (Sum256 e (Join row ''|''))"
  show ?case
  proof (cases "?d x = ?d r")
    case True
    then have "0 < length (x # xs) \<and> findRowByHash e (?d r) i (x # xs) = Some (i + 0)
               \<and> ?d ((x # xs) ! 0) = ?d r"
      by (simp add: Let_def)
    then show ?thesis by blast
  next
    case False
    with Cons.prems have "r \<in> set xs" by auto
    from Cons.IH [OF this, of "Suc i"] obtain j where "j < length xs"
      "findRowByHash e (?d r) (Suc i) xs = Some (Suc i + j)" "?d (xs ! j) = ?d r"
      by blast
    with False have "Suc j < length (x # xs) \<and>
        findRowByHash e (?d r) i (x # xs) = Some (i + Suc j) \<and> ?d ((x # xs) ! Suc j) = ?d r"
      by (simp add: Let_def)
    then show ?thesis by blast
  qed
qed

lemma SelectRowByHash_selects:
  assumes "r \<in> set (t_rows (m_table m2))"
  shows "hexString (Sum256 e (Join
           (SelectedRow (m_table (SelectRowByHash e m2 (hexString (Sum256 e (Join r ''|''))))))
           ''|'')) = hexString (Sum256 e (Join r ''|''))"
proof -
  from findRowByHash_finds [OF assms, of e 0] obtain j where j: "j < length (t_rows (m_table m2))"
    and f: "findRowByHash e (hexString (Sum256 e (Join r ''|''))) 0 (t_rows (m_table m2)) = Some j"
    and d: "hexString (Sum256 e (Join (t_rows (m_table m2) ! j) ''|'')) =
            hexString (Sum256 e (Join r ''|''))"
    by auto
  have "SelectedRow (m_table (SelectRowByHash e m2 (hexString (Sum256 e (Join r ''|''))))) =
          t_rows (m_table m2) ! j"
    using j by (simp add: SelectRowByHash_def f SetCursor_def SelectedRow_def)
  with d show ?thesis by simp
qed

lemma saveColumns_instance:
  "tbl_instance (snd (saveColumns e idItem uid row aliases i cs w)) = tbl_instance w"
proof (induction cs arbitrary: i w)
  case Nil
  then show ?case by simp
next
  case (Cons c cs)
  have x: "\<And>n w'. execReplaceConfig w n = Inr w' \<Longrightarrow> tbl_instance w' = tbl_instance w"
    by (auto simp: execReplaceConfig_def split: option.splits)
  show ?case
    using Cons.IH x by (simp add: Let_def split: option.splits sum.splits)
qed

lemma SaveConfigFromTable_instance:
  "tbl_instance (snd (SaveConfigFromTable e w itemName idDB uid row cols aliases)) = tbl_instance w"
proof -
  have "tbl_instance (snd (InsertItemIfNotExists w itemName idDB)) = tbl_instance w"
    by (simp add: InsertItemIfNotExists_def split: option.splits)
  then show ?thesis
    by (auto simp: SaveConfigFromTable_def saveColumns_instance
        split: prod.splits option.splits sum.splits)
qed

lemma GetHashByUID_after_SaveInstance:
  assumes "u \<noteq> []" "tbl_instance w1 = Some ins"
  shows "GetHashByUID (case SaveInstance rnd w1 q h u f of Inl err \<Rightarrow> w1 | Inr (uid, w') \<Rightarrow> w') u q
           = Inr h"
proof -
  let ?n = "\<lparr>ins_uid = u, ins_id_query = q, ins_hash = h, ins_filter = f\<rparr>"
  have s: "SaveInstance rnd w1 q h u f = Inr (u, w1\<lparr>tbl_instance := Some (replaceInstance ins ?n)\<rparr>)"
    using assms by (simp add: SaveInstance_def)
  have "filter (\<lambda>r. ins_uid r = u \<and> ins_id_query r = q) (replaceInstance ins ?n) = [?n]"
    using filter_replaceInstance_key [of ?n ins] by simp
  then have "find (\<lambda>r. ins_uid r = u \<and> ins_id_query r = q) (replaceInstance ins ?n) = Some ?n"
    by (rule find_single)
  then show ?thesis by (simp add: s GetHashByUID_def)
qed

text \<open>
  Claim C2.  The digest is computed from the cells alone, by the same expression in the
  enter handler and in \<open>SelectRowByHash\<close>.  After a successful enter, in either focus,
  with a token given and the instance table present: the digest stored for the token and
  the query is the lower-case hexadecimal digest of the row selected in the resulting
  model; and on any model whose table holds that row, at any position, \<open>SelectRowByHash\<close>
  with the stored digest selects a row that has the same digest.
\<close>

theorem row_digest_relocates_row:
  assumes "Update e rnd w m (KeyMsg ''enter'') = ((m', NoCmd), w')"
      and "m_uid m \<noteq> []"
      and "tbl_instance w = Some ins"
      and "SelectedRow (m_table m') \<in> set (t_rows (m_table m2))"
  shows "\<exists>h. GetHashByUID w' (m_uid m) (m_idQuery m) = Inr h
           \<and> h = hexString (Sum256 e (Join (SelectedRow (m_table m')) ''|''))
           \<and> list_all isLowerHex h
           \<and> hexString (Sum256 e (Join (SelectedRow (m_table (SelectRowByHash e m2 h))) ''|'')) = h"
proof -
  let ?h = "hexString (Sum256 e (Join (SelectedRow (m_table m')) ''|''))"
  have g: "GetHashByUID w' (m_uid m) (m_idQuery m) = Inr ?h"
  proof (cases "ti_focus (m_textInput m)")
    case True
    obtain res w1 where fc: "FilterContent e w m (ti_value (m_textInput m)) = (res, w1)"
      by (cases "FilterContent e w m (ti_value (m_textInput m))")
    obtain q where "snd (FilterContent e w m (ti_value (m_textInput m))) =
        w\<lparr>executed := executed w @ [q]\<rparr>"
      using FilterContent_world by blast
    with fc assms(3) have i: "tbl_instance w1 = Some ins" by simp
    show ?thesis
    proof (cases res)
      case (Inl err)
      from Update_enter_filter_err [OF True fc [unfolded Inl], of rnd] assms(1)
      show ?thesis by simp
    next
      case (Inr rc)
      obtain rows cols where rc: "rc = (rows, cols)" by (cases rc)
      from Update_enter_filter_ok [OF True fc [unfolded Inr rc], of rnd] assms(1)
      have m': "m' = m\<lparr>m_table := SetColumns (SetRows (m_table m) rows) cols\<rparr>"
        and w': "w' = (case SaveInstance rnd w1 (m_idQuery m)
                    (hexString (Sum256 e (Join (SelectedRow (SetColumns (SetRows (m_table m) rows) cols)) ''|'')))
                    (m_uid m) (ti_value (m_textInput m)) of
               Inl err \<Rightarrow> w1
             | Inr (uid, w') \<Rightarrow> w')"
        by simp_all
      show ?thesis
        unfolding w' m' using GetHashByUID_after_SaveInstance [OF assms(2) i] by simp
    qed
  next
    case False
    let ?s = "SaveConfigFromTable e w (m_itemName m) (m_idDB m) (m_uid m) (SelectedRow (m_table m))
             (t_cols (m_table m)) (m_aliases m)"
    obtain eo w1 where sc: "?s = (eo, w1)" by (cases ?s)
    have "tbl_instance (snd ?s) = tbl_instance w" by (rule SaveConfigFromTable_instance)
    with sc assms(3) have i: "tbl_instance w1 = Some ins" by simp
    show ?thesis
    proof (cases eo)
      case (Some err)
      from Update_enter_table_err [OF False sc [unfolded Some], of rnd] assms(1)
      show ?thesis by simp
    next
      case None
      from Update_enter_table_ok [OF False sc [unfolded None], of rnd] assms(1)
      have m': "m' = m"
        and w': "w' = (case SaveInstance rnd w1 (m_idQuery m)
                    (hexString (Sum256 e (Join (SelectedRow (m_table m)) ''|'')))
                    (m_uid m) (ti_value (m_textInput m)) of
               Inl err \<Rightarrow> w1
             | Inr (uid, w') \<Rightarrow> w')"
        by simp_all
      show ?thesis
        unfolding w' m' using GetHashByUID_after_SaveInstance [OF assms(2) i] by simp
    qed
  qed
  have l: "list_all isLowerHex ?h" by (rule isLowerHex_hexString)
  have s: "hexString (Sum256 e (Join (SelectedRow (m_table (SelectRowByHash e m2 ?h))) ''|'')) = ?h"
    by (rule SelectRowByHash_selects [OF assms(4)])
  from g l s show ?thesis by blast
qed

lemma example_digest: "hexString (exampleSum ''1|ann'') = ''05ea''"
  by code_simp

lemma example_digest2: "hexString (exampleSum ''2|'') = ''02ae''"
  by code_simp

theorem row_digest_relocates_row_witness:
  "m_uid exampleModel \<noteq> []
   \<and> tbl_instance exampleWorld = Some []
   \<and> fst (Update exampleEnv (\<lambda>i. 0) exampleWorld exampleModel (KeyMsg ''enter'')) =
        (exampleModel, NoCmd)
   \<and> GetHashByUID (snd (Update exampleEnv (\<lambda>i. 0) exampleWorld exampleModel (KeyMsg ''enter'')))
        ''u1'' 1 = Inr ''05ea''
   \<and> hexString (exampleSum (Join (SelectedRow (m_table (SelectRowByHash exampleEnv
        (exampleModel\<lparr>m_table := (m_table exampleModel)\<lparr>t_rows := [[''2'', []], [''1'', ''ann'']]\<rparr>\<rparr>)
        ''05ea''))) ''|'')) = ''05ea''
   \<and> SelectedRow (m_table (SelectRowByHash exampleEnv
        (exampleModel\<lparr>m_table := (m_table exampleModel)\<lparr>t_rows := [[''2'', []], [''1'', ''ann'']]\<rparr>\<rparr>)
        ''05ea'')) = [''1'', ''ann'']"
proof -
  let ?m2 = "exampleModel\<lparr>m_table := (m_table exampleModel)\<lparr>t_rows := [[''2'', []], [''1'', ''ann'']]\<rparr>\<rparr>"
  let ?U = "Update exampleEnv (\<lambda>i. 0) exampleWorld exampleModel (KeyMsg ''enter'')"
  have u0: "m_uid exampleModel \<noteq> []" by (simp add: exampleModel_def)
  have i0: "tbl_instance exampleWorld = Some []" by (simp add: exampleWorld_def)
  have f: "fst ?U = (exampleModel, NoCmd)"
    by (simp add: Update_def SaveConfigFromTable_def InsertItemIfNotExists_def GetItemID_def
        execReplaceConfig_def SelectedRow_def Batch_def Let_def example_eval
        split: prod.splits sum.splits)
  then have u: "?U = ((exampleModel, NoCmd), snd ?U)" by (simp only: prod_eq_iff fst_conv snd_conv simp_thms)
  have sel: "SelectedRow (m_table exampleModel) = [''1'', ''ann'']"
    by (simp add: SelectedRow_def exampleModel_def)
  have r: "SelectedRow (m_table exampleModel) \<in> set (t_rows (m_table ?m2))"
    by (simp add: sel)
  have s: "Sum256 exampleEnv = exampleSum" by (simp add: exampleEnv_def)
  from row_digest_relocates_row [OF u u0 i0 r]
  obtain h where g: "GetHashByUID (snd ?U) (m_uid exampleModel) (m_idQuery exampleModel) = Inr h"
    and h: "h = hexString (Sum256 exampleEnv (Join (SelectedRow (m_table exampleModel)) ''|''))"
    and d: "hexString (Sum256 exampleEnv (Join (SelectedRow (m_table
               (SelectRowByHash exampleEnv ?m2 h))) ''|'')) = h"
    by blast
  from h have h': "h = ''05ea''" by (simp add: sel s example_digest)
  have g': "GetHashByUID (snd ?U) ''u1'' 1 = Inr ''05ea''"
    using g h' by (simp add: exampleModel_def)
  have d': "hexString (exampleSum (Join (SelectedRow (m_table
               (SelectRowByHash exampleEnv ?m2 ''05ea''))) ''|'')) = ''05ea''"
    using d by (simp only: h' s)
  have x: "SelectedRow (m_table (SelectRowByHash exampleEnv ?m2 ''05ea'')) = [''1'', ''ann'']"
    by (simp add: SelectRowByHash_def s example_digest example_digest2 SetCursor_def
        SelectedRow_def Let_def)
  from u0 i0 f g' d' x show ?thesis by blast
qed

section \<open>The first table and the table of an empty filter\<close>

text \<open>
  Claim C4 fails on the code.  With the widths keyed by the alias \<open>N\<close> of the column
  \<open>NAME\<close>, the first table of \<open>main\<close> has the column \<open>NAME\<close> at the default width 20,
  since \<open>applyColumnWidths\<close> looks the title up and does not use the aliases it is given;
  \<open>FilterContent\<close> on the empty filter resolves the alias and gives the width 30.
\<close>

theorem startup_widths_ignore_aliases:
  "fst (mainContent exampleEnv exampleWorld ''all_users'' ''SELECT id, name FROM users'') =
     Inr ([[''1'', ''ann''], [''2'', []]],
          [\<lparr>Title = ''ID'', Width = 20\<rparr>, \<lparr>Title = ''NAME'', Width = 20\<rparr>])
   \<and> fst (FilterContent exampleEnv exampleWorld exampleModel []) =
     Inr ([[''1'', ''ann''], [''2'', []]],
          [\<lparr>Title = ''ID'', Width = 20\<rparr>, \<lparr>Title = ''NAME'', Width = 30\<rparr>])"
proof -
  have c: "GetQueryConfig exampleEnv exampleWorld ''all_users'' =
             Inr ([''N'' \<mapsto> 30], [''NAME'' \<mapsto> ''N''], 5)"
    by (simp add: GetQueryConfig_def Let_def example_eval)
  have g: "fst (GetContent exampleEnv exampleWorld ''SELECT id, name FROM users'') =
             Inr ([[''1'', ''ann''], [''2'', []]],
                  [\<lparr>Title = ''ID'', Width = 20\<rparr>, \<lparr>Title = ''NAME'', Width = 20\<rparr>])"
    by (simp add: GetContent_def Let_def renderRow_def renderVal_def example_eval)
  then obtain w1 where gc: "GetContent exampleEnv exampleWorld ''SELECT id, name FROM users'' =
             (Inr ([[''1'', ''ann''], [''2'', []]],
                   [\<lparr>Title = ''ID'', Width = 20\<rparr>, \<lparr>Title = ''NAME'', Width = 20\<rparr>]), w1)"
    by (cases "GetContent exampleEnv exampleWorld ''SELECT id, name FROM users''") simp
  have up: "ToUpper exampleEnv = asciiUpper" by (simp add: exampleEnv_def)
  have t: "TrimSpace (TrimPrefix (TrimSpace []) ''WHERE'') = []"
    by (simp add: trim_eval)
  have 1: "fst (mainContent exampleEnv exampleWorld ''all_users'' ''SELECT id, name FROM users'') =
     Inr ([[''1'', ''ann''], [''2'', []]],
          [\<lparr>Title = ''ID'', Width = 20\<rparr>, \<lparr>Title = ''NAME'', Width = 20\<rparr>])"
    by (simp add: mainContent_def c gc applyColumnWidths_def)
  have 2: "fst (FilterContent exampleEnv exampleWorld exampleModel []) =
     Inr ([[''1'', ''ann''], [''2'', []]],
          [\<lparr>Title = ''ID'', Width = 20\<rparr>, \<lparr>Title = ''NAME'', Width = 30\<rparr>])"
    unfolding FilterContent_def Let_def t
    by (simp add: c gc up resolveWidth_def Let_def exampleModel_def asciiUpper_def
        asciiUpperChar_def char_of_def bit_Suc_0_iff)
  from 1 2 show ?thesis by blast
qed

end
